theory Spec2Isabelle
  imports Complex_Main
begin

section \<open>Data model\<close>

text \<open>
  JavaScript strings are modelled as \<open>string\<close>, one \<open>char\<close> per UTF-16 code unit below 256
  (Latin-1); byte counts (\<open>size\<close>, \<open>ContentLength\<close>) are \<open>nat\<close>; the numbers that are only
  passed through from the video platform (\<open>duration\<close>) are \<open>real\<close>. An optional field
  (\<open>x?: T\<close>, or a value that may be \<open>undefined\<close>) is an \<open>option\<close>.
\<close>

text \<open>\<open>Express.Multer.File\<close>: the fields the services read.\<close>

record multer_file =
  originalname :: string
  mimetype :: "string option"
  size_bytes :: nat
  buffer :: string

text \<open>The parameter \<open>fileType: 'video' | 'image'\<close>.\<close>

datatype file_type = Video | Image

text \<open>
  Exceptions: \<open>FileUploadException\<close> (an \<open>HttpException\<close> with status \<open>BAD_REQUEST\<close>) and
  the plain JavaScript \<open>Error\<close>; \<open>message\<close> reads \<open>error.message\<close>.
\<close>

datatype exn = FileUploadException string | Error string

fun message :: "exn \<Rightarrow> string" where
  "message (FileUploadException m) = m"
| "message (Error m) = m"

text \<open>\<open>S3UploadResult\<close> of \<open>s3.service.ts\<close> and its optional \<open>metadata\<close>.\<close>

record file_metadata =
  width :: "nat option"
  height :: "nat option"
  md_duration :: "real option"

record S3UploadResult =
  s3_url :: string
  s3_key :: string
  s3_contentType :: string
  s3_size :: nat
  s3_metadata :: "file_metadata option"

text \<open>
  The asset object the video platform answers \<open>video.assets.create\<close> with (the fields
  \<open>createAsset\<close> reads), and \<open>VideoMetadata\<close> built from it. \<open>Date\<close> wraps the timestamp
  string it was constructed from.
\<close>

record mux_asset =
  asset_id :: string
  asset_status :: string
  asset_duration :: "real option"
  aspect_ratio :: "string option"
  playback_ids :: "string list option"
  created_at :: string
  upload_id :: "string option"

datatype date = Date string

record VideoMetadata =
  vm_id :: string
  vm_title :: string
  vm_status :: string
  vm_duration :: "real option"
  vm_aspectRatio :: "string option"
  vm_playbackId :: "string option"
  vm_createdAt :: date
  vm_uploadId :: "string option"
  vm_s3Url :: string

text \<open>\<open>UploadResult\<close> of \<open>upload.service.ts\<close> and its \<open>data\<close> object.\<close>

datatype upload_status = Success | Failed

record upload_data =
  d_id :: "string option"
  d_title :: "string option"
  d_url :: string
  d_status :: "string option"
  d_duration :: "real option"
  d_aspectRatio :: "string option"
  d_playbackId :: "string option"
  d_createdAt :: "date option"
  d_uploadId :: "string option"
  d_s3Url :: "string option"
  d_contentType :: string
  d_size :: nat
  d_metadata :: "file_metadata option"

record UploadResult =
  status :: upload_status
  data :: "upload_data option"
  error :: "string option"
  fileName :: string

text \<open>
  One element of the array \<open>uploadMultipleFiles\<close> resolves to:
  \<open>{status: 'fulfilled' | 'rejected', value?, reason?, fileName}\<close>.
\<close>

datatype settle_status = Fulfilled | Rejected

record settled =
  st_status :: settle_status
  st_value :: "S3UploadResult option"
  st_reason :: "string option"
  st_fileName :: string

section \<open>External services\<close>

text \<open>
  The requests sent to the object storage (\<open>s3Client.send\<close> of a \<open>PutObjectCommand\<close>,
  \<open>HeadObjectCommand\<close>, \<open>DeleteObjectCommand\<close>) and to the video platform
  (\<open>muxClient.video.assets.create\<close>). A computation returns, next to its outcome, the
  list of requests its own call chain issued, in the order it issued them.
\<close>

datatype call =
  PutObject string
| HeadObject string
| DeleteObject string
| AssetsCreate string

type_synonym 'a promise = "(exn + 'a) \<times> call list"

text \<open>The answer to a \<open>HeadObjectCommand\<close>: \<open>ContentType\<close> and \<open>ContentLength\<close>.\<close>

record head_response =
  ContentType :: "string option"
  ContentLength :: "nat option"

text \<open>
  The environment: the configuration (\<open>s3Config\<close>) and what the two external services
  answer to each request. A failing request answers with the message of the error the
  client library throws.
\<close>

record env =
  bucketName :: string
  region :: string
  s3_put :: "string \<Rightarrow> multer_file \<Rightarrow> string option"
  s3_head :: "string \<Rightarrow> string + head_response"
  s3_delete :: "string \<Rightarrow> string option"
  mux_assets_create :: "string \<Rightarrow> string + mux_asset"

section \<open>Storage client (\<open>s3.service.ts\<close>)\<close>

definition ALLOWED_VIDEO_TYPES :: "string list" where
  "ALLOWED_VIDEO_TYPES =
     [''video/mp4'', ''video/quicktime'', ''video/x-msvideo'', ''video/x-matroska'', ''video/webm'']"

definition ALLOWED_IMAGE_TYPES :: "string list" where
  "ALLOWED_IMAGE_TYPES = [''image/jpeg'', ''image/png'', ''image/gif'', ''image/webp'']"

text \<open>\<open>Array.prototype.join\<close> on strings.\<close>

fun join :: "string \<Rightarrow> string list \<Rightarrow> string" where
  "join sep [] = []"
| "join sep [x] = x"
| "join sep (x # y # ys) = x @ sep @ join sep (y # ys)"

text \<open>A natural number in a template literal: its decimal digits.\<close>

fun show_nat :: "nat \<Rightarrow> string" where
  "show_nat n =
     (if n < 10 then [char_of (48 + n)]
      else show_nat (n div 10) @ [char_of (48 + n mod 10)])"

declare show_nat.simps [simp del]

fun show_file_type :: "file_type \<Rightarrow> string" where
  "show_file_type Video = ''video''"
| "show_file_type Image = ''image''"

definition allowedTypes :: "file_type \<Rightarrow> string list" where
  "allowedTypes fileType =
     (if fileType = Video then ALLOWED_VIDEO_TYPES else ALLOWED_IMAGE_TYPES)"

definition maxSize :: "file_type \<Rightarrow> nat" where
  "maxSize fileType = (if fileType = Video then 100 * 1024 * 1024 else 5 * 1024 * 1024)"

text \<open>
  \<open>validateFile\<close>: \<open>None\<close> when the file passes, otherwise the exception thrown.
  \<open>!file.mimetype\<close> holds for \<open>undefined\<close> and for the empty string.
\<close>

definition validateFile :: "multer_file \<Rightarrow> file_type \<Rightarrow> exn option" where
  "validateFile file fileType =
     (if (case mimetype file of None \<Rightarrow> True | Some m \<Rightarrow> m = [] \<or> m \<notin> set (allowedTypes fileType))
      then Some (FileUploadException
             (''Invalid '' @ show_file_type fileType @ '' type. Allowed types: ''
                @ join '', '' (allowedTypes fileType)))
      else if size_bytes file > maxSize fileType
      then Some (FileUploadException
             (''File size exceeds limit. Maximum size for '' @ show_file_type fileType
                @ '' is '' @ show_nat (maxSize fileType div (1024 * 1024)) @ ''MB''))
      else None)"

text \<open>\<open>getFileMetadata\<close>: one \<open>HeadObjectCommand\<close>; \<open>||\<close> takes the default for a missing,
  empty or zero field.\<close>

definition getFileMetadata :: "env \<Rightarrow> string \<Rightarrow> (string \<times> nat) promise" where
  "getFileMetadata e k =
     (case s3_head e k of
        Inl m \<Rightarrow> (Inl (FileUploadException (''Failed to get file metadata: '' @ m)), [HeadObject k])
      | Inr response \<Rightarrow>
          (Inr (case ContentType response of
                  None \<Rightarrow> ''application/octet-stream''
                | Some c \<Rightarrow> if c = [] then ''application/octet-stream'' else c,
                case ContentLength response of None \<Rightarrow> 0 | Some n \<Rightarrow> n),
           [HeadObject k]))"

text \<open>
  \<open>uploadFile\<close>. \<open>uuid\<close> is the identifier \<open>randomUUID()\<close> returns in this call; the
  default of \<open>folder\<close> is \<open>'videos'\<close> or \<open>'images'\<close>. The file is an \<open>option\<close> for the
  guard \<open>if (!file)\<close>.
\<close>

definition default_folder :: "file_type \<Rightarrow> string" where
  "default_folder fileType = (if fileType = Video then ''videos'' else ''images'')"

definition uploadFile ::
  "env \<Rightarrow> string \<Rightarrow> multer_file option \<Rightarrow> file_type \<Rightarrow> string option \<Rightarrow> S3UploadResult promise" where
  "uploadFile e uuid file_opt fileType folder_opt =
     (case file_opt of
        None \<Rightarrow> (Inl (FileUploadException ''No file provided''), [])
      | Some file \<Rightarrow>
          (case validateFile file fileType of
             Some err \<Rightarrow> (Inl err, [])
           | None \<Rightarrow>
               let folder = (case folder_opt of None \<Rightarrow> default_folder fileType | Some f \<Rightarrow> f);
                   fileName = folder @ ''/'' @ uuid @ ''-'' @ originalname file
               in (case s3_put e fileName file of
                     Some m \<Rightarrow>
                       (Inl (FileUploadException (''Failed to upload file to S3: '' @ m)),
                        [PutObject fileName])
                   | None \<Rightarrow>
                       (case getFileMetadata e fileName of
                          (Inl err, cs) \<Rightarrow>
                            (Inl (FileUploadException
                                    (''Failed to upload file to S3: '' @ message err)),
                             PutObject fileName # cs)
                        | (Inr (contentType, sz), cs) \<Rightarrow>
                            (Inr \<lparr> s3_url = ''https://'' @ bucketName e @ ''.s3.'' @ region e
                                            @ ''.amazonaws.com/'' @ fileName,
                                   s3_key = fileName,
                                   s3_contentType = contentType,
                                   s3_size = sz,
                                   s3_metadata = None \<rparr>,
                             PutObject fileName # cs)))))"

text \<open>\<open>deleteFile\<close>: one \<open>DeleteObjectCommand\<close>; a failure is rethrown.\<close>

definition deleteFile :: "env \<Rightarrow> string \<Rightarrow> unit promise" where
  "deleteFile e k =
     (case s3_delete e k of
        None \<Rightarrow> (Inr (), [DeleteObject k])
      | Some m \<Rightarrow>
          (Inl (FileUploadException (''Failed to delete file from S3: '' @ m)), [DeleteObject k]))"

section \<open>Video processing client (\<open>mux.service.ts\<close>)\<close>

text \<open>
  \<open>createAsset\<close>: one \<open>assets.create\<close> request. Whatever the request fails with is
  logged, and the error thrown always carries the same message.
\<close>

definition createAsset :: "env \<Rightarrow> string \<Rightarrow> string \<Rightarrow> VideoMetadata promise" where
  "createAsset e videoUrl title =
     (case mux_assets_create e videoUrl of
        Inl m \<Rightarrow> (Inl (Error ''Failed to process video with Mux''), [AssetsCreate videoUrl])
      | Inr asset \<Rightarrow>
          (Inr \<lparr> vm_id = asset_id asset,
                 vm_title = title,
                 vm_status = asset_status asset,
                 vm_duration = asset_duration asset,
                 vm_aspectRatio = aspect_ratio asset,
                 vm_playbackId = (case playback_ids asset of
                                    None \<Rightarrow> None | Some [] \<Rightarrow> None | Some (p # ps) \<Rightarrow> Some p),
                 vm_createdAt = Date (created_at asset),
                 vm_uploadId = upload_id asset,
                 vm_s3Url = videoUrl \<rparr>,
           [AssetsCreate videoUrl]))"

section \<open>\<open>Promise.all\<close>\<close>

text \<open>
  \<open>Promise.all\<close> over promises that settle at the times \<open>t 0\<close>, \<open>t 1\<close>, ... (promise \<open>i\<close>
  at \<open>t i\<close>; equal times settle in index order). In the order of completion, a fulfilled
  value is stored in the slot of its index and the first rejection rejects the whole;
  when every slot is filled the array of the slots is the result.
\<close>

definition completion_order :: "(nat \<Rightarrow> nat) \<Rightarrow> nat \<Rightarrow> nat list" where
  "completion_order t n = sort_key t [0..<n]"

fun fill_slots :: "(exn + 'a) list \<Rightarrow> nat list \<Rightarrow> 'a option list \<Rightarrow> exn + 'a option list" where
  "fill_slots ps [] slots = Inr slots"
| "fill_slots ps (i # js) slots =
     (case ps ! i of
        Inl err \<Rightarrow> Inl err
      | Inr v \<Rightarrow> fill_slots ps js (slots[i := Some v]))"

fun slot_values :: "'a option list \<Rightarrow> 'a list" where
  "slot_values [] = []"
| "slot_values (None # slots) = slot_values slots"
| "slot_values (Some v # slots) = v # slot_values slots"

definition promise_all :: "(nat \<Rightarrow> nat) \<Rightarrow> (exn + 'a) list \<Rightarrow> exn + 'a list" where
  "promise_all t ps =
     (case fill_slots ps (completion_order t (length ps)) (replicate (length ps) None) of
        Inl err \<Rightarrow> Inl err
      | Inr slots \<Rightarrow> Inr (slot_values slots))"

text \<open>
  What a batch run does not decide itself: the identifier \<open>randomUUID()\<close> returns in the
  chain of item \<open>i\<close>, the time at which the storage upload of item \<open>i\<close> settles, and the
  time at which the processing of item \<open>i\<close> settles.
\<close>

record schedule =
  randomUUID :: "nat \<Rightarrow> string"
  upload_settles :: "nat \<Rightarrow> nat"
  item_settles :: "nat \<Rightarrow> nat"

text \<open>
  \<open>uploadMultipleFiles\<close>. \<open>upload_promise\<close> is one element of \<open>uploadPromises\<close>:
  \<open>uploadFile(...).then(...).catch(...)\<close>. The second component of the result holds, for
  each file in input order, the requests issued for it.
\<close>

definition upload_promise ::
  "env \<Rightarrow> string \<Rightarrow> multer_file \<Rightarrow> file_type \<Rightarrow> string option \<Rightarrow> settled promise" where
  "upload_promise e uuid file fileType folder =
     (case uploadFile e uuid (Some file) fileType folder of
        (Inr v, cs) \<Rightarrow>
          (Inr \<lparr> st_status = Fulfilled, st_value = Some v, st_reason = None,
                 st_fileName = originalname file \<rparr>, cs)
      | (Inl err, cs) \<Rightarrow>
          (Inr \<lparr> st_status = Rejected, st_value = None, st_reason = Some (message err),
                 st_fileName = originalname file \<rparr>, cs))"

definition uploadMultipleFiles ::
  "env \<Rightarrow> schedule \<Rightarrow> multer_file list option \<Rightarrow> file_type \<Rightarrow> string option
     \<Rightarrow> (exn + settled list) \<times> call list list" where
  "uploadMultipleFiles e sched files_opt fileType folder =
     (case files_opt of
        None \<Rightarrow> (Inr [], [])
      | Some files \<Rightarrow>
          if length files = 0 then (Inr [], [])
          else
            let uploadPromises =
                  map (\<lambda>(i, file). upload_promise e (randomUUID sched i) file fileType folder)
                    (enumerate 0 files)
            in (case promise_all (upload_settles sched) (map fst uploadPromises) of
                  Inr results \<Rightarrow> (Inr results, map snd uploadPromises)
                | Inl err \<Rightarrow>
                    (Inl (FileUploadException
                            (''Failed to process upload batch: '' @ message err)),
                     map snd uploadPromises)))"

section \<open>Upload orchestrator (\<open>upload.service.ts\<close>)\<close>

text \<open>\<open>a || b\<close> on an optional string: \<open>undefined\<close> and the empty string are falsy.\<close>

fun or_else :: "string option \<Rightarrow> string \<Rightarrow> string" where
  "or_else None d = d"
| "or_else (Some s) d = (if s = [] then d else s)"

text \<open>The object \<open>{...muxResult, url, contentType, size}\<close> of both video flows.\<close>

definition video_data :: "VideoMetadata \<Rightarrow> S3UploadResult \<Rightarrow> upload_data" where
  "video_data muxResult s3Result =
     \<lparr> d_id = Some (vm_id muxResult),
       d_title = Some (vm_title muxResult),
       d_url = s3_url s3Result,
       d_status = Some (vm_status muxResult),
       d_duration = vm_duration muxResult,
       d_aspectRatio = vm_aspectRatio muxResult,
       d_playbackId = vm_playbackId muxResult,
       d_createdAt = Some (vm_createdAt muxResult),
       d_uploadId = vm_uploadId muxResult,
       d_s3Url = Some (vm_s3Url muxResult),
       d_contentType = s3_contentType s3Result,
       d_size = s3_size s3Result,
       d_metadata = None \<rparr>"

text \<open>The object \<open>{url, s3Url: url, contentType, size, metadata}\<close> of both image flows.\<close>

definition image_data :: "S3UploadResult \<Rightarrow> upload_data" where
  "image_data r =
     \<lparr> d_id = None, d_title = None, d_url = s3_url r, d_status = None, d_duration = None,
       d_aspectRatio = None, d_playbackId = None, d_createdAt = None, d_uploadId = None,
       d_s3Url = Some (s3_url r), d_contentType = s3_contentType r, d_size = s3_size r,
       d_metadata = s3_metadata r \<rparr>"

definition failed :: "string option \<Rightarrow> string \<Rightarrow> UploadResult" where
  "failed reason name = \<lparr> status = Failed, data = None, error = reason, fileName = name \<rparr>"

text \<open>
  \<open>uploadVideo\<close>: the body of the \<open>try\<close> first, then the \<open>catch\<close>, which returns a result
  of its own. \<open>Inl\<close> would be an exception leaving the method.
\<close>

definition uploadVideo_try ::
  "env \<Rightarrow> string \<Rightarrow> multer_file \<Rightarrow> string option \<Rightarrow> UploadResult promise" where
  "uploadVideo_try e uuid file title =
     (case uploadFile e uuid (Some file) Video None of
        (Inl err, cs) \<Rightarrow> (Inl err, cs)
      | (Inr s3Result, cs) \<Rightarrow>
          (case createAsset e (s3_url s3Result) (or_else title (originalname file)) of
             (Inl err, ds) \<Rightarrow> (Inl err, cs @ ds)
           | (Inr muxResult, ds) \<Rightarrow>
               (Inr \<lparr> status = Success, data = Some (video_data muxResult s3Result),
                      error = None, fileName = originalname file \<rparr>,
                cs @ ds)))"

definition uploadVideo ::
  "env \<Rightarrow> string \<Rightarrow> multer_file \<Rightarrow> string option \<Rightarrow> UploadResult promise" where
  "uploadVideo e uuid file title =
     (case uploadVideo_try e uuid file title of
        (Inr result, cs) \<Rightarrow> (Inr result, cs)
      | (Inl err, cs) \<Rightarrow> (Inr (failed (Some (message err)) (originalname file)), cs))"

definition uploadImage :: "env \<Rightarrow> string \<Rightarrow> multer_file \<Rightarrow> UploadResult promise" where
  "uploadImage e uuid file =
     (case uploadFile e uuid (Some file) Image None of
        (Inr result, cs) \<Rightarrow>
          (Inr \<lparr> status = Success, data = Some (image_data result), error = None,
                 fileName = originalname file \<rparr>, cs)
      | (Inl err, cs) \<Rightarrow> (Inr (failed (Some (message err)) (originalname file)), cs))"

text \<open>
  \<open>titles?.[index] || files[index].originalname\<close>: an index past the end of an array reads
  \<open>undefined\<close>, and reading \<open>originalname\<close> of \<open>undefined\<close> throws a \<open>TypeError\<close>.
\<close>

definition item_title :: "multer_file list \<Rightarrow> string list option \<Rightarrow> nat \<Rightarrow> exn + string" where
  "item_title files titles index =
     (let given = (case titles of
                     None \<Rightarrow> None
                   | Some ts \<Rightarrow> if index < length ts then Some (ts ! index) else None);
          fallback = (if index < length files then Inr (originalname (files ! index))
                      else Inl (Error (''Cannot read properties of undefined (reading ''
                                         @ [CHR 0x27] @ ''originalname'' @ [CHR 0x27] @ '')'')))
      in (case given of
            None \<Rightarrow> fallback
          | Some t \<Rightarrow> if t = [] then fallback else Inr t))"

text \<open>
  The callback of \<open>s3Results.map\<close> in \<open>uploadMultipleVideos\<close>, for the element \<open>result\<close> at
  \<open>index\<close>: the \<open>try\<close> (title and asset creation), its \<open>catch\<close> (delete the stored object,
  whose own failure \<open>.catch\<close> only logs), and the result for a rejected upload.
\<close>

definition video_item ::
  "env \<Rightarrow> multer_file list \<Rightarrow> string list option \<Rightarrow> nat \<Rightarrow> settled \<Rightarrow> UploadResult promise" where
  "video_item e files titles index result =
     (case (if st_status result = Fulfilled then st_value result else None) of
        Some v \<Rightarrow>
          (case (case item_title files titles index of
                   Inl err \<Rightarrow> (Inl err, [])
                 | Inr title \<Rightarrow> createAsset e (s3_url v) title) of
             (Inr muxResult, cs) \<Rightarrow>
               (Inr \<lparr> status = Success, data = Some (video_data muxResult v),
                      error = None, fileName = st_fileName result \<rparr>, cs)
           | (Inl err, cs) \<Rightarrow>
               (case deleteFile e (s3_key v) of
                  (_, ds) \<Rightarrow>
                    (Inr (failed (Some (''Mux processing failed: '' @ message err))
                            (st_fileName result)),
                     cs @ ds)))
      | None \<Rightarrow> (Inr (failed (st_reason result) (st_fileName result)), []))"

text \<open>
  \<open>uploadMultipleVideos\<close>. The second component of the result holds, for each file in input
  order, the requests issued for it: those of its storage upload, then those of its
  processing.
\<close>

definition uploadMultipleVideos ::
  "env \<Rightarrow> schedule \<Rightarrow> multer_file list option \<Rightarrow> string list option
     \<Rightarrow> (exn + UploadResult list) \<times> call list list" where
  "uploadMultipleVideos e sched files_opt titles =
     (case files_opt of
        None \<Rightarrow> (Inr [], [])
      | Some files \<Rightarrow>
          if length files = 0 then (Inr [], [])
          else
            (case uploadMultipleFiles e sched (Some files) Video None of
               (Inl err, css) \<Rightarrow>
                 (Inl (FileUploadException (''Batch upload failed: '' @ message err)), css)
             | (Inr s3Results, css) \<Rightarrow>
                 let items = map (\<lambda>(index, result). video_item e files titles index result)
                               (enumerate 0 s3Results)
                 in (case promise_all (item_settles sched) (map fst items) of
                       Inr results \<Rightarrow> (Inr results, map2 (@) css (map snd items))
                     | Inl err \<Rightarrow>
                         (Inl (FileUploadException
                                 (''Batch upload failed: '' @ message err)),
                          map2 (@) css (map snd items)))))"

text \<open>The callback of \<open>results.map\<close> in \<open>uploadMultipleImages\<close>.\<close>

definition image_item :: "settled \<Rightarrow> UploadResult" where
  "image_item result =
     (case (if st_status result = Fulfilled then st_value result else None) of
        Some v \<Rightarrow>
          \<lparr> status = Success, data = Some (image_data v), error = None,
            fileName = st_fileName result \<rparr>
      | None \<Rightarrow> failed (st_reason result) (st_fileName result))"

definition uploadMultipleImages ::
  "env \<Rightarrow> schedule \<Rightarrow> multer_file list option \<Rightarrow> (exn + UploadResult list) \<times> call list list" where
  "uploadMultipleImages e sched files_opt =
     (case files_opt of
        None \<Rightarrow> (Inr [], [])
      | Some files \<Rightarrow>
          if length files = 0 then (Inr [], [])
          else
            (case uploadMultipleFiles e sched (Some files) Image None of
               (Inr results, css) \<Rightarrow> (Inr (map image_item results), css)
             | (Inl err, css) \<Rightarrow>
                 (Inl (FileUploadException
                         (''Batch image upload failed: '' @ message err)), css)))"

section \<open>HTTP surface (\<open>upload.controller.ts\<close>)\<close>

text \<open>
  \<open>String.prototype.trim\<close> removes white space and line terminators from both ends; among
  the code units below 256 these are tab, LF, VT, FF, CR, space and the no-break space.
\<close>

definition isWhiteSpace :: "char \<Rightarrow> bool" where
  "isWhiteSpace c = ((of_char c :: nat) \<in> set [9, 10, 11, 12, 13, 32, 160])"

definition trim :: "string \<Rightarrow> string" where
  "trim s = rev (dropWhile isWhiteSpace (rev (dropWhile isWhiteSpace s)))"

text \<open>The characters the class \<open>[^a-zA-Z0-9-_. ]\<close> does not match.\<close>

definition title_char :: "char \<Rightarrow> bool" where
  "title_char c =
     (let n = (of_char c :: nat)
      in (97 \<le> n \<and> n \<le> 122) \<or> (65 \<le> n \<and> n \<le> 90) \<or> (48 \<le> n \<and> n \<le> 57)
         \<or> c = CHR ''-'' \<or> c = CHR ''_'' \<or> c = CHR ''.'' \<or> c = CHR '' '')"

text \<open>\<open>title?.trim().replace(/[^a-zA-Z0-9-_. ]/g, '') || ''\<close>\<close>

definition sanitizeTitle :: "string option \<Rightarrow> string" where
  "sanitizeTitle title =
     or_else (case title of None \<Rightarrow> None | Some t \<Rightarrow> Some (filter title_char (trim t))) []"

text \<open>\<open>Array.isArray(rawTitles) ? rawTitles.map(...) : undefined\<close>; \<open>None\<close> is a value that
  is not an array.\<close>

definition sanitizeTitles :: "string option list option \<Rightarrow> string list option" where
  "sanitizeTitles rawTitles =
     (case rawTitles of None \<Rightarrow> None | Some ts \<Rightarrow> Some (map sanitizeTitle ts))"

text \<open>
  The file pipe in front of every upload method,
  \<open>new ParseFilePipeBuilder().addFileTypeValidator({fileType}).addMaxSizeValidator({maxSize})
  .build({errorHttpStatusCode: HttpStatus.UNPROCESSABLE_ENTITY})\<close>. It is the framework's
  and runs before the body of the method: a file passes when its MIME type matches the
  pattern and its size is less than \<open>maxSize\<close>; a missing file, an empty array of files or
  a file that does not pass is answered with status 422 and the method is not called.
  The patterns \<open>/(mp4|mov|avi|mkv|webm)$/\<close> and \<open>/(jpg|jpeg|png|gif|webp)$/\<close> match a string
  that ends with one of their alternatives.
\<close>

definition ends_with :: "string \<Rightarrow> string \<Rightarrow> bool" where
  "ends_with s suffix =
     (length suffix \<le> length s \<and> drop (length s - length suffix) s = suffix)"

definition VIDEO_FILE_TYPE :: "string list" where
  "VIDEO_FILE_TYPE = [''mp4'', ''mov'', ''avi'', ''mkv'', ''webm'']"

definition IMAGE_FILE_TYPE :: "string list" where
  "IMAGE_FILE_TYPE = [''jpg'', ''jpeg'', ''png'', ''gif'', ''webp'']"

definition pipe_accepts :: "string list \<Rightarrow> nat \<Rightarrow> multer_file \<Rightarrow> bool" where
  "pipe_accepts alternatives maxSz file =
     ((case mimetype file of
         None \<Rightarrow> False
       | Some m \<Rightarrow> list_ex (ends_with m) alternatives)
      \<and> size_bytes file < maxSz)"

definition parse_files :: "string list \<Rightarrow> nat \<Rightarrow> multer_file list option \<Rightarrow> bool" where
  "parse_files alternatives maxSz files_opt =
     (case files_opt of
        None \<Rightarrow> False
      | Some files \<Rightarrow> files \<noteq> [] \<and> list_all (pipe_accepts alternatives maxSz) files)"

text \<open>
  What the client of an endpoint gets instead of a result: the 422 of the file pipe, or
  an exception thrown by the method. \<open>respond\<close> passes on what the service returned or
  threw.
\<close>

datatype http_error = UnprocessableEntity | Thrown exn

definition respond :: "(exn + 'a) \<times> 'c \<Rightarrow> (http_error + 'a) \<times> 'c" where
  "respond r = (case r of (Inl err, cs) \<Rightarrow> (Inl (Thrown err), cs) | (Inr x, cs) \<Rightarrow> (Inr x, cs))"

text \<open>
  The four upload endpoints, for a request the throttler lets through. \<open>MAX_SIZE\<close> is
  imported from \<open>@/common/constants/video\<close>, which is not among the sources: it is a
  parameter. The image endpoints give \<open>5 * 1024 * 1024\<close> to the pipe. \<open>uploadVideo\<close> hands
  the title of the request body to the service as it came; \<open>uploadMultipleVideos\<close>
  sanitizes the titles first.
\<close>

definition controller_uploadVideo ::
  "nat \<Rightarrow> env \<Rightarrow> string \<Rightarrow> multer_file option \<Rightarrow> string option
     \<Rightarrow> (http_error + UploadResult) \<times> call list" where
  "controller_uploadVideo MAX_SIZE e uuid file_opt title =
     (case file_opt of
        None \<Rightarrow> (Inl UnprocessableEntity, [])
      | Some file \<Rightarrow>
          if pipe_accepts VIDEO_FILE_TYPE MAX_SIZE file
          then respond (uploadVideo e uuid file title)
          else (Inl UnprocessableEntity, []))"

definition controller_uploadImage ::
  "env \<Rightarrow> string \<Rightarrow> multer_file option \<Rightarrow> (http_error + UploadResult) \<times> call list" where
  "controller_uploadImage e uuid file_opt =
     (case file_opt of
        None \<Rightarrow> (Inl UnprocessableEntity, [])
      | Some file \<Rightarrow>
          if pipe_accepts IMAGE_FILE_TYPE (5 * 1024 * 1024) file
          then respond (uploadImage e uuid file)
          else (Inl UnprocessableEntity, []))"

definition controller_uploadMultipleVideos ::
  "nat \<Rightarrow> env \<Rightarrow> schedule \<Rightarrow> multer_file list option \<Rightarrow> string option list option
     \<Rightarrow> (http_error + UploadResult list) \<times> call list list" where
  "controller_uploadMultipleVideos MAX_SIZE e sched files rawTitles =
     (if parse_files VIDEO_FILE_TYPE MAX_SIZE files
      then respond (uploadMultipleVideos e sched files (sanitizeTitles rawTitles))
      else (Inl UnprocessableEntity, []))"

definition controller_uploadMultipleImages ::
  "env \<Rightarrow> schedule \<Rightarrow> multer_file list option
     \<Rightarrow> (http_error + UploadResult list) \<times> call list list" where
  "controller_uploadMultipleImages e sched files =
     (if parse_files IMAGE_FILE_TYPE (5 * 1024 * 1024) files
      then respond (uploadMultipleImages e sched files)
      else (Inl UnprocessableEntity, []))"

section \<open>The call chain of one item\<close>

text \<open>
  What a batch does for the file at index \<open>i\<close> alone: its element of \<open>uploadPromises\<close>,
  then the callback of the batch method on what that element resolved to. The result is
  the outcome of the item with the requests issued for it.
\<close>

definition video_chain ::
  "env \<Rightarrow> string \<Rightarrow> multer_file list \<Rightarrow> string list option \<Rightarrow> nat \<Rightarrow> UploadResult promise" where
  "video_chain e uuid files titles i =
     (case upload_promise e uuid (files ! i) Video None of
        (Inl err, cs) \<Rightarrow> (Inl err, cs)
      | (Inr result, cs) \<Rightarrow>
          (case video_item e files titles i result of (r, ds) \<Rightarrow> (r, cs @ ds)))"

definition image_chain :: "env \<Rightarrow> string \<Rightarrow> multer_file \<Rightarrow> UploadResult promise" where
  "image_chain e uuid file =
     (case upload_promise e uuid file Image None of
        (Inl err, cs) \<Rightarrow> (Inl err, cs)
      | (Inr result, cs) \<Rightarrow> (Inr (image_item result), cs))"

text \<open>Which requests a list of requests holds.\<close>

fun isDeleteObject :: "call \<Rightarrow> bool" where
  "isDeleteObject (DeleteObject k) = True"
| "isDeleteObject c = False"

fun isAssetsCreate :: "call \<Rightarrow> bool" where
  "isAssetsCreate (AssetsCreate u) = True"
| "isAssetsCreate c = False"

section \<open>Sample inputs\<close>

text \<open>
  A storage that accepts every write and answers every head request with
  \<open>video/mp4\<close>, 50 bytes, but refuses every delete; a video platform that fails on the
  stored \<open>b.mp4\<close> and answers \<open>preparing\<close> otherwise.
\<close>

definition sample_asset :: mux_asset where
  "sample_asset =
     \<lparr> asset_id = ''a1'', asset_status = ''preparing'', asset_duration = None,
       aspect_ratio = None, playback_ids = Some [''p1''], created_at = ''1700000000'',
       upload_id = None \<rparr>"

definition sample_env :: env where
  "sample_env =
     \<lparr> bucketName = ''bucket'', region = ''eu-west-1'',
       s3_put = (\<lambda>k f. None),
       s3_head = (\<lambda>k. Inr \<lparr> ContentType = Some ''video/mp4'', ContentLength = Some 50 \<rparr>),
       s3_delete = (\<lambda>k. Some ''AccessDenied''),
       mux_assets_create =
         (\<lambda>u. if u = ''https://bucket.s3.eu-west-1.amazonaws.com/videos/u1-b.mp4''
              then Inl ''boom'' else Inr sample_asset) \<rparr>"

definition clip_mp4 :: multer_file where
  "clip_mp4 =
     \<lparr> originalname = ''clip.mp4'', mimetype = Some ''video/mp4'', size_bytes = 50,
       buffer = ''x'' \<rparr>"

definition b_mp4 :: multer_file where
  "b_mp4 =
     \<lparr> originalname = ''b.mp4'', mimetype = Some ''video/mp4'', size_bytes = 50,
       buffer = ''x'' \<rparr>"

definition notes_txt :: multer_file where
  "notes_txt =
     \<lparr> originalname = ''notes.txt'', mimetype = Some ''text/plain'', size_bytes = 50,
       buffer = ''x'' \<rparr>"

definition big_png :: multer_file where
  "big_png =
     \<lparr> originalname = ''big.png'', mimetype = Some ''image/png'',
       size_bytes = 6 * 1024 * 1024, buffer = ''x'' \<rparr>"

definition small_png :: multer_file where
  "small_png =
     \<lparr> originalname = ''small.png'', mimetype = Some ''image/png'', size_bytes = 50,
       buffer = ''x'' \<rparr>"

text \<open>The sample services with a storage that refuses every write.\<close>

definition down_env :: env where
  "down_env = sample_env \<lparr> s3_put := (\<lambda>k f. Some ''SlowDown'') \<rparr>"

text \<open>The size the sample requests take for \<open>MAX_SIZE\<close>: 100MB.\<close>

definition sample_MAX_SIZE :: nat where
  "sample_MAX_SIZE = 100 * 1024 * 1024"

text \<open>What the storage upload of \<open>b.mp4\<close> under the identifier \<open>u1\<close> returns.\<close>

definition stored_b :: S3UploadResult where
  "stored_b =
     \<lparr> s3_url = ''https://bucket.s3.eu-west-1.amazonaws.com/videos/u1-b.mp4'',
       s3_key = ''videos/u1-b.mp4'', s3_contentType = ''video/mp4'', s3_size = 50,
       s3_metadata = None \<rparr>"

text \<open>Identifiers \<open>u0\<close>, \<open>u1\<close>, ...; the items settle in the reverse of the input order.\<close>

definition sample_sched :: schedule where
  "sample_sched =
     \<lparr> randomUUID = (\<lambda>i. ''u'' @ show_nat i),
       upload_settles = (\<lambda>i. 100 - i),
       item_settles = (\<lambda>i. 100 - i) \<rparr>"

section \<open>\<open>Promise.all\<close> keeps the input order\<close>

lemma slot_values_Some: "slot_values (map Some vs) = vs"
  by (induction vs) simp_all

lemma fill_slots_fulfilled:
  "set js \<subseteq> {..<length vs} \<Longrightarrow> length slots = length vs \<Longrightarrow>
   fill_slots (map Inr vs) js slots =
     Inr (map (\<lambda>i. if i \<in> set js then Some (vs ! i) else slots ! i) [0..<length vs])"
proof (induction js arbitrary: slots)
  case Nil
  then show ?case using map_nth [of slots] by simp
next
  case (Cons i js)
  from Cons.prems have i: "i < length vs" and js: "set js \<subseteq> {..<length vs}" by auto
  have len: "length (slots[i := Some (vs ! i)]) = length vs" using Cons.prems by simp
  show ?case
    using i Cons.prems(2) Cons.IH [OF js len] by (auto simp: nth_list_update)
qed

lemma promise_all_fulfilled: "promise_all t (map Inr vs) = Inr vs"
proof -
  have "set (completion_order t (length vs)) = {..<length vs}"
    by (auto simp: completion_order_def)
  then have "fill_slots (map Inr vs) (completion_order t (length vs)) (replicate (length vs) None)
      = Inr (map (\<lambda>i. Some (vs ! i)) [0..<length vs])"
    by (subst fill_slots_fulfilled) auto
  also have "map (\<lambda>i. Some (vs ! i)) [0..<length vs] = map Some vs"
    by (rule nth_equalityI) auto
  finally show ?thesis
    by (simp add: promise_all_def slot_values_Some)
qed

lemma promise_all_all_fulfilled:
  assumes "\<And>p. p \<in> set ps \<Longrightarrow> \<not> isl p"
  shows "promise_all t ps = Inr (map projr ps)"
proof -
  have "ps = map Inr (map projr ps)"
    using assms by (induction ps) auto
  then show ?thesis
    using promise_all_fulfilled [of t "map projr ps"] by simp
qed

lemma map_enumerate_nth:
  "map (\<lambda>(i, x). f i x) (enumerate 0 xs) = map (\<lambda>i. f i (xs ! i)) [0..<length xs]"
  by (rule nth_equalityI) (auto simp: nth_enumerate_eq)

section \<open>A batch is its items' chains, in input order\<close>

lemma upload_promise_fulfils: "\<not> isl (fst (upload_promise e u f ft fo))"
  by (simp add: upload_promise_def split: prod.splits sum.splits)

lemma video_item_fulfils: "\<not> isl (fst (video_item e fs ts i s))"
  by (simp add: video_item_def failed_def split: prod.splits sum.splits option.splits)

lemma uploadMultipleFiles_nonempty:
  assumes "files \<noteq> []"
  shows "uploadMultipleFiles e sched (Some files) ft fo =
    (Inr (map (\<lambda>i. projr (fst (upload_promise e (randomUUID sched i) (files ! i) ft fo)))
            [0..<length files]),
     map (\<lambda>i. snd (upload_promise e (randomUUID sched i) (files ! i) ft fo)) [0..<length files])"
proof -
  let ?ps = "map (\<lambda>i. upload_promise e (randomUUID sched i) (files ! i) ft fo) [0..<length files]"
  have "promise_all (upload_settles sched) (map fst ?ps) = Inr (map projr (map fst ?ps))"
    by (rule promise_all_all_fulfilled) (auto simp: upload_promise_fulfils)
  then show ?thesis
    using assms by (simp add: uploadMultipleFiles_def map_enumerate_nth comp_def)
qed

lemma video_chain_split:
  "video_chain e u files titles i =
     (fst (video_item e files titles i (projr (fst (upload_promise e u (files ! i) Video None)))),
      snd (upload_promise e u (files ! i) Video None)
        @ snd (video_item e files titles i
                 (projr (fst (upload_promise e u (files ! i) Video None)))))"
  using upload_promise_fulfils [of e u "files ! i" Video None]
  by (auto simp: video_chain_def split: prod.splits sum.splits)

lemma video_chain_fulfils: "\<not> isl (fst (video_chain e u files titles i))"
  by (simp add: video_chain_split video_item_fulfils)

lemma uploadMultipleVideos_nonempty:
  assumes "files \<noteq> []"
  shows "uploadMultipleVideos e sched (Some files) titles =
    (Inr (map (\<lambda>i. projr (fst (video_chain e (randomUUID sched i) files titles i)))
            [0..<length files]),
     map (\<lambda>i. snd (video_chain e (randomUUID sched i) files titles i)) [0..<length files])"
proof -
  let ?u = "\<lambda>i. upload_promise e (randomUUID sched i) (files ! i) Video None"
  let ?s = "map (\<lambda>i. projr (fst (?u i))) [0..<length files]"
  let ?items = "map (\<lambda>i. video_item e files titles i (?s ! i)) [0..<length ?s]"
  have all: "promise_all (item_settles sched) (map fst ?items) = Inr (map projr (map fst ?items))"
    by (rule promise_all_all_fulfilled) (auto simp: video_item_fulfils)
  have res: "map projr (map fst ?items) =
      map (\<lambda>i. projr (fst (video_chain e (randomUUID sched i) files titles i))) [0..<length files]"
    by (rule nth_equalityI) (simp_all add: video_chain_split)
  have tr: "map2 (@) (map (\<lambda>i. snd (?u i)) [0..<length files]) (map snd ?items) =
      map (\<lambda>i. snd (video_chain e (randomUUID sched i) files titles i)) [0..<length files]"
    by (rule nth_equalityI) (simp_all add: video_chain_split)
  show ?thesis
    using assms all res tr
    by (simp add: uploadMultipleVideos_def uploadMultipleFiles_nonempty map_enumerate_nth)
qed

lemma image_chain_split:
  "image_chain e u f =
     (Inr (image_item (projr (fst (upload_promise e u f Image None)))),
      snd (upload_promise e u f Image None))"
  using upload_promise_fulfils [of e u f Image None]
  by (auto simp: image_chain_def split: prod.splits sum.splits)

lemma uploadMultipleImages_nonempty:
  assumes "files \<noteq> []"
  shows "uploadMultipleImages e sched (Some files) =
    (Inr (map (\<lambda>i. projr (fst (image_chain e (randomUUID sched i) (files ! i))))
            [0..<length files]),
     map (\<lambda>i. snd (image_chain e (randomUUID sched i) (files ! i))) [0..<length files])"
  using assms
  by (simp add: uploadMultipleImages_def uploadMultipleFiles_nonempty image_chain_split comp_def)

section \<open>Storage validation\<close>

lemma show_nat_5: "show_nat 5 = ''5''"
  by code_simp

text \<open>
  Claim C8. The storage put operation (\<open>uploadFile\<close>) fails with a validation error
  (a \<open>FileUploadException\<close>) and issues no request at all when the MIME type of the file
  is missing or not in the allow-list of its namespace, or when its size exceeds the
  ceiling of the namespace; the ceilings are 100MB for video and 5MB for image. A 6MB
  \<open>image/png\<close> file is rejected with the size-limit message before any request.
\<close>

theorem storage_put_validates_before_any_call:
  "((case mimetype f of None \<Rightarrow> True | Some m \<Rightarrow> m \<notin> set (allowedTypes ft))
       \<or> size_bytes f > maxSize ft
      \<longrightarrow> (\<exists>msg. uploadFile e u (Some f) ft fo = (Inl (FileUploadException msg), [])))
   \<and> maxSize Video = 100 * 1024 * 1024 \<and> maxSize Image = 5 * 1024 * 1024
   \<and> (mimetype f = Some ''image/png'' \<and> size_bytes f = 6 * 1024 * 1024
      \<longrightarrow> uploadFile e u (Some f) Image fo =
            (Inl (FileUploadException ''File size exceeds limit. Maximum size for image is 5MB''),
             []))"
proof (intro conjI impI)
  assume "(case mimetype f of None \<Rightarrow> True | Some m \<Rightarrow> m \<notin> set (allowedTypes ft))
       \<or> size_bytes f > maxSize ft"
  then have "\<exists>msg. validateFile f ft = Some (FileUploadException msg)"
    by (auto simp: validateFile_def split: option.splits)
  then show "\<exists>msg. uploadFile e u (Some f) ft fo = (Inl (FileUploadException msg), [])"
    by (auto simp: uploadFile_def)
next
  show "maxSize Video = 100 * 1024 * 1024" by (simp add: maxSize_def)
  show "maxSize Image = 5 * 1024 * 1024" by (simp add: maxSize_def)
next
  assume "mimetype f = Some ''image/png'' \<and> size_bytes f = 6 * 1024 * 1024"
  then have "validateFile f Image =
      Some (FileUploadException ''File size exceeds limit. Maximum size for image is 5MB'')"
    by (simp add: validateFile_def allowedTypes_def ALLOWED_IMAGE_TYPES_def maxSize_def show_nat_5)
  then show "uploadFile e u (Some f) Image fo =
      (Inl (FileUploadException ''File size exceeds limit. Maximum size for image is 5MB''), [])"
    by (simp add: uploadFile_def)
qed

theorem storage_put_validates_before_any_call_witness:
  "size_bytes big_png > maxSize Image
   \<and> mimetype big_png = Some ''image/png'' \<and> size_bytes big_png = 6 * 1024 * 1024
   \<and> uploadFile sample_env ''u0'' (Some big_png) Image None =
       (Inl (FileUploadException ''File size exceeds limit. Maximum size for image is 5MB''), [])"
  using storage_put_validates_before_any_call
          [where f = big_png and ft = Image and e = sample_env and u = "''u0''" and fo = None]
  by (simp add: big_png_def maxSize_def)

section \<open>Empty batches\<close>

text \<open>
  Claim C10. For a missing (\<open>None\<close>) or empty list of files, both batch operations, and
  the storage client's batch upload under them, return the empty list of outcomes, raise
  nothing and issue no request.
\<close>

theorem empty_batch_is_empty_result:
  "uploadMultipleVideos e sched None titles = (Inr [], [])
   \<and> uploadMultipleVideos e sched (Some []) titles = (Inr [], [])
   \<and> uploadMultipleImages e sched None = (Inr [], [])
   \<and> uploadMultipleImages e sched (Some []) = (Inr [], [])
   \<and> uploadMultipleFiles e sched None ft fo = (Inr [], [])
   \<and> uploadMultipleFiles e sched (Some []) ft fo = (Inr [], [])"
  by (simp add: uploadMultipleVideos_def uploadMultipleImages_def uploadMultipleFiles_def)

theorem empty_batch_is_empty_result_witness:
  "uploadMultipleVideos sample_env sample_sched None (Some [''A'']) = (Inr [], [])
   \<and> uploadMultipleVideos sample_env sample_sched (Some []) (Some [''A'']) = (Inr [], [])
   \<and> uploadMultipleImages sample_env sample_sched None = (Inr [], [])
   \<and> uploadMultipleImages sample_env sample_sched (Some []) = (Inr [], [])
   \<and> uploadMultipleFiles sample_env sample_sched None Video None = (Inr [], [])
   \<and> uploadMultipleFiles sample_env sample_sched (Some []) Video None = (Inr [], [])"
  using empty_batch_is_empty_result
          [where e = sample_env and sched = sample_sched and titles = "Some [''A'']"
             and ft = Video and fo = None]
  by simp

section \<open>Sample runs of the storage client\<close>

lemma sample_uuids:
  "randomUUID sample_sched 0 = ''u0''"
  "randomUUID sample_sched 1 = ''u1''"
  "randomUUID sample_sched (Suc 0) = ''u1''"
  "randomUUID sample_sched 2 = ''u2''"
  by code_simp+

lemma sample_upload_clip:
  "uploadFile sample_env u (Some clip_mp4) Video None =
     (Inr \<lparr> s3_url = ''https://bucket.s3.eu-west-1.amazonaws.com/videos/'' @ u @ ''-clip.mp4'',
            s3_key = ''videos/'' @ u @ ''-clip.mp4'', s3_contentType = ''video/mp4'',
            s3_size = 50, s3_metadata = None \<rparr>,
      [PutObject (''videos/'' @ u @ ''-clip.mp4''), HeadObject (''videos/'' @ u @ ''-clip.mp4'')])"
  by (simp add: uploadFile_def validateFile_def allowedTypes_def ALLOWED_VIDEO_TYPES_def
        maxSize_def default_folder_def getFileMetadata_def Let_def sample_env_def clip_mp4_def)

lemma sample_upload_b:
  "uploadFile sample_env ''u1'' (Some b_mp4) Video None = (Inr stored_b,
      [PutObject ''videos/u1-b.mp4'', HeadObject ''videos/u1-b.mp4''])"
  by (simp add: uploadFile_def validateFile_def allowedTypes_def ALLOWED_VIDEO_TYPES_def
        maxSize_def default_folder_def getFileMetadata_def Let_def sample_env_def b_mp4_def stored_b_def)

lemma sample_upload_notes:
  "uploadFile sample_env u (Some notes_txt) Video None =
     (Inl (FileUploadException (''Invalid video type. Allowed types: video/mp4, ''
             @ ''video/quicktime, video/x-msvideo, video/x-matroska, video/webm'')), [])"
  by (simp add: uploadFile_def validateFile_def allowedTypes_def ALLOWED_VIDEO_TYPES_def
        notes_txt_def)

lemma sample_create_b: "mux_assets_create sample_env (s3_url stored_b) = Inl ''boom''"
  by (simp add: sample_env_def stored_b_def)

section \<open>Properties of one item's chain\<close>

lemma map_eq_by_index:
  "length ys = length xs \<Longrightarrow> \<forall>i<length xs. f (ys ! i) = g (xs ! i) \<Longrightarrow> map f ys = map g xs"
  by (rule nth_equalityI) simp_all

lemma upload_promise_fileName:
  "st_fileName (projr (fst (upload_promise e u f ft fo))) = originalname f"
  by (simp add: upload_promise_def split: prod.splits sum.splits)

lemma video_item_fileName:
  "fileName (projr (fst (video_item e fs ts i s))) = st_fileName s"
  by (simp add: video_item_def failed_def split: prod.splits sum.splits option.splits)

lemma video_chain_fileName:
  "fileName (projr (fst (video_chain e u files titles i))) = originalname (files ! i)"
  by (simp add: video_chain_split video_item_fileName upload_promise_fileName)

lemma image_chain_fileName:
  "fileName (projr (fst (image_chain e u f))) = originalname f"
  by (simp add: image_chain_split image_item_def failed_def upload_promise_fileName
           split: option.splits)

lemma image_chain_fulfils: "\<not> isl (fst (image_chain e u f))"
  by (simp add: image_chain_split)

lemma getFileMetadata_calls: "getFileMetadata e k = (r, cs) \<Longrightarrow> cs = [HeadObject k]"
  by (auto simp: getFileMetadata_def split: sum.splits)

lemma uploadFile_calls:
  "filter isDeleteObject (snd (uploadFile e u fopt ft fo)) = []"
  "filter isAssetsCreate (snd (uploadFile e u fopt ft fo)) = []"
  by (auto simp: uploadFile_def Let_def dest: getFileMetadata_calls
        split: option.splits prod.splits sum.splits)

lemma upload_promise_calls:
  "snd (upload_promise e u f ft fo) = snd (uploadFile e u (Some f) ft fo)"
  by (simp add: upload_promise_def split: prod.splits sum.splits)

lemma item_title_in_range: "i < length files \<Longrightarrow> \<not> isl (item_title files titles i)"
  by (simp add: item_title_def Let_def split: option.splits)

lemma video_chain_processing_failed:
  assumes "i < length files"
    and "fst (uploadFile e u (Some (files ! i)) Video None) = Inr v"
    and "mux_assets_create e (s3_url v) = Inl m"
  shows "video_chain e u files titles i =
    (Inr (failed (Some ''Mux processing failed: Failed to process video with Mux'')
            (originalname (files ! i))),
     snd (uploadFile e u (Some (files ! i)) Video None)
       @ [AssetsCreate (s3_url v), DeleteObject (s3_key v)])"
proof -
  obtain cs where up: "uploadFile e u (Some (files ! i)) Video None = (Inr v, cs)"
    using assms(2) by (cases "uploadFile e u (Some (files ! i)) Video None") simp
  obtain t where t: "item_title files titles i = Inr t"
    using item_title_in_range [OF assms(1), of titles]
    by (cases "item_title files titles i") simp_all
  show ?thesis
    by (simp add: video_chain_def upload_promise_def up video_item_def t createAsset_def
          assms(3) deleteFile_def split: option.splits)
qed

lemma video_chain_storage_failed:
  assumes "fst (uploadFile e u (Some (files ! i)) Video None) = Inl err"
  shows "video_chain e u files titles i =
    (Inr (failed (Some (message err)) (originalname (files ! i))),
     snd (uploadFile e u (Some (files ! i)) Video None))"
proof -
  obtain cs where up: "uploadFile e u (Some (files ! i)) Video None = (Inl err, cs)"
    using assms by (cases "uploadFile e u (Some (files ! i)) Video None") simp
  show ?thesis
    by (simp add: video_chain_def upload_promise_def up video_item_def)
qed

section \<open>Batch uploads\<close>

text \<open>
  Claim C1. A batch upload (videos or images) over a non-empty list of files returns,
  without raising, exactly one outcome and one list of issued requests per file, and
  outcome \<open>i\<close> is the outcome of the call chain of file \<open>i\<close>: it carries the original name
  of file \<open>i\<close>. The times at which the concurrent uploads and processings settle do not
  change the result.
\<close>

theorem batch_outcomes_follow_input_order:
  assumes "files \<noteq> []"
  shows "(\<exists>outs css. uploadMultipleVideos e sched (Some files) titles = (Inr outs, css)
            \<and> length outs = length files \<and> length css = length files
            \<and> (\<forall>i<length files.
                  video_chain e (randomUUID sched i) files titles i = (Inr (outs ! i), css ! i)
                  \<and> fileName (outs ! i) = originalname (files ! i)))
       \<and> (\<exists>outs css. uploadMultipleImages e sched (Some files) = (Inr outs, css)
            \<and> length outs = length files \<and> length css = length files
            \<and> (\<forall>i<length files.
                  image_chain e (randomUUID sched i) (files ! i) = (Inr (outs ! i), css ! i)
                  \<and> fileName (outs ! i) = originalname (files ! i)))
       \<and> uploadMultipleVideos e (sched\<lparr>upload_settles := t1, item_settles := t2\<rparr>)
             (Some files) titles
           = uploadMultipleVideos e sched (Some files) titles
       \<and> uploadMultipleImages e (sched\<lparr>upload_settles := t1, item_settles := t2\<rparr>) (Some files)
           = uploadMultipleImages e sched (Some files)"
proof (intro conjI)
  show "uploadMultipleVideos e (sched\<lparr>upload_settles := t1, item_settles := t2\<rparr>)
             (Some files) titles
           = uploadMultipleVideos e sched (Some files) titles"
    by (simp add: uploadMultipleVideos_nonempty [OF assms])
  show "uploadMultipleImages e (sched\<lparr>upload_settles := t1, item_settles := t2\<rparr>) (Some files)
           = uploadMultipleImages e sched (Some files)"
    by (simp add: uploadMultipleImages_nonempty [OF assms])
next
  let ?vouts = "map (\<lambda>i. projr (fst (video_chain e (randomUUID sched i) files titles i)))
                  [0..<length files]"
  let ?vcss = "map (\<lambda>i. snd (video_chain e (randomUUID sched i) files titles i))
                 [0..<length files]"
  have v: "(Inr (projr (fst (video_chain e u files titles i))),
            snd (video_chain e u files titles i)) = video_chain e u files titles i" for u i
    using video_chain_fulfils [of e u files titles i] by (simp add: prod_eq_iff)
  have "uploadMultipleVideos e sched (Some files) titles = (Inr ?vouts, ?vcss)"
    by (rule uploadMultipleVideos_nonempty [OF assms])
  moreover have "length ?vouts = length files" "length ?vcss = length files"
    by simp_all
  moreover have "\<forall>i<length files.
      video_chain e (randomUUID sched i) files titles i = (Inr (?vouts ! i), ?vcss ! i)
      \<and> fileName (?vouts ! i) = originalname (files ! i)"
    by (simp add: v video_chain_fileName)
  ultimately show "\<exists>outs css. uploadMultipleVideos e sched (Some files) titles = (Inr outs, css)
            \<and> length outs = length files \<and> length css = length files
            \<and> (\<forall>i<length files.
                  video_chain e (randomUUID sched i) files titles i = (Inr (outs ! i), css ! i)
                  \<and> fileName (outs ! i) = originalname (files ! i))"
    by blast
  let ?iouts = "map (\<lambda>i. projr (fst (image_chain e (randomUUID sched i) (files ! i))))
                  [0..<length files]"
  let ?icss = "map (\<lambda>i. snd (image_chain e (randomUUID sched i) (files ! i)))
                 [0..<length files]"
  have m: "(Inr (projr (fst (image_chain e u f))), snd (image_chain e u f)) = image_chain e u f"
    for u f
    using image_chain_fulfils [of e u f] by (simp add: prod_eq_iff)
  have "uploadMultipleImages e sched (Some files) = (Inr ?iouts, ?icss)"
    by (rule uploadMultipleImages_nonempty [OF assms])
  moreover have "length ?iouts = length files" "length ?icss = length files"
    by simp_all
  moreover have "\<forall>i<length files.
      image_chain e (randomUUID sched i) (files ! i) = (Inr (?iouts ! i), ?icss ! i)
      \<and> fileName (?iouts ! i) = originalname (files ! i)"
    by (simp add: m image_chain_fileName)
  ultimately show "\<exists>outs css. uploadMultipleImages e sched (Some files) = (Inr outs, css)
            \<and> length outs = length files \<and> length css = length files
            \<and> (\<forall>i<length files.
                  image_chain e (randomUUID sched i) (files ! i) = (Inr (outs ! i), css ! i)
                  \<and> fileName (outs ! i) = originalname (files ! i))"
    by blast
qed

theorem batch_outcomes_follow_input_order_witness:
  "[clip_mp4, b_mp4, notes_txt] \<noteq> []
   \<and> map fileName (projr (fst (uploadMultipleVideos sample_env sample_sched
                                 (Some [clip_mp4, b_mp4, notes_txt]) None)))
       = [''clip.mp4'', ''b.mp4'', ''notes.txt'']"
proof -
  have ne: "[clip_mp4, b_mp4, notes_txt] \<noteq> []" by simp
  from batch_outcomes_follow_input_order [OF ne, of sample_env sample_sched None]
  obtain outs css where
    run: "uploadMultipleVideos sample_env sample_sched (Some [clip_mp4, b_mp4, notes_txt]) None
            = (Inr outs, css)"
    and len: "length outs = length [clip_mp4, b_mp4, notes_txt]"
    and names: "\<forall>i<length [clip_mp4, b_mp4, notes_txt].
                  fileName (outs ! i) = originalname ([clip_mp4, b_mp4, notes_txt] ! i)"
    by blast
  have "map fileName outs = map originalname [clip_mp4, b_mp4, notes_txt]"
    using len names by (rule map_eq_by_index)
  also have "\<dots> = [''clip.mp4'', ''b.mp4'', ''notes.txt'']"
    by (simp add: clip_mp4_def b_mp4_def notes_txt_def)
  finally show ?thesis
    by (simp add: run)
qed

text \<open>
  Claim C2. In a batch video upload, when the storage upload of item \<open>i\<close> succeeded with
  the stored object \<open>v\<close> and the asset creation for it failed, outcome \<open>i\<close> is \<open>failed\<close>
  with the message of the processing failure, and the chain of item \<open>i\<close> issues exactly
  one delete request, for the key of \<open>v\<close>. Nothing is assumed about the answer to that
  delete request: when it fails, the outcome is the same.
\<close>

theorem failed_processing_deletes_stored_object:
  assumes "i < length files"
    and "fst (uploadFile e (randomUUID sched i) (Some (files ! i)) Video None) = Inr v"
    and "mux_assets_create e (s3_url v) = Inl m"
  shows "\<exists>outs css. uploadMultipleVideos e sched (Some files) titles = (Inr outs, css)
      \<and> status (outs ! i) = Failed
      \<and> error (outs ! i) = Some ''Mux processing failed: Failed to process video with Mux''
      \<and> fileName (outs ! i) = originalname (files ! i)
      \<and> filter isDeleteObject (css ! i) = [DeleteObject (s3_key v)]"
proof -
  from assms(1) have ne: "files \<noteq> []" by auto
  show ?thesis
    unfolding uploadMultipleVideos_nonempty [OF ne]
    using assms(1)
    by (simp add: video_chain_processing_failed [OF assms] failed_def uploadFile_calls)
qed

theorem failed_processing_deletes_stored_object_witness:
  "(1::nat) < length [clip_mp4, b_mp4, notes_txt]
   \<and> fst (uploadFile sample_env (randomUUID sample_sched 1)
            (Some ([clip_mp4, b_mp4, notes_txt] ! 1)) Video None) = Inr stored_b
   \<and> mux_assets_create sample_env (s3_url stored_b) = Inl ''boom''
   \<and> s3_delete sample_env (s3_key stored_b) = Some ''AccessDenied''
   \<and> (\<exists>outs css. uploadMultipleVideos sample_env sample_sched
                     (Some [clip_mp4, b_mp4, notes_txt]) None = (Inr outs, css)
        \<and> status (outs ! 1) = Failed
        \<and> error (outs ! 1) = Some ''Mux processing failed: Failed to process video with Mux''
        \<and> fileName (outs ! 1) = ''b.mp4''
        \<and> filter isDeleteObject (css ! 1) = [DeleteObject ''videos/u1-b.mp4''])"
proof -
  have i: "(1::nat) < length [clip_mp4, b_mp4, notes_txt]" by simp
  have up: "fst (uploadFile sample_env (randomUUID sample_sched 1)
                  (Some ([clip_mp4, b_mp4, notes_txt] ! 1)) Video None) = Inr stored_b"
    by (simp add: sample_uuids sample_upload_b)
  have del: "s3_delete sample_env (s3_key stored_b) = Some ''AccessDenied''"
    by (simp add: sample_env_def)
  show ?thesis
    using failed_processing_deletes_stored_object [OF i up sample_create_b, of None]
      i up sample_create_b del
    by (simp add: b_mp4_def stored_b_def)
qed

text \<open>
  Claim C3. In a batch video upload, when the storage upload of item \<open>i\<close> failed with the
  error \<open>err\<close>, outcome \<open>i\<close> is \<open>failed\<close> and carries the message of \<open>err\<close>, and the chain
  of item \<open>i\<close> issues no asset-creation request.
\<close>

theorem failed_storage_skips_processing:
  assumes "i < length files"
    and "fst (uploadFile e (randomUUID sched i) (Some (files ! i)) Video None) = Inl err"
  shows "\<exists>outs css. uploadMultipleVideos e sched (Some files) titles = (Inr outs, css)
      \<and> outs ! i = \<lparr> status = Failed, data = None, error = Some (message err),
                      fileName = originalname (files ! i) \<rparr>
      \<and> filter isAssetsCreate (css ! i) = []"
proof -
  from assms(1) have ne: "files \<noteq> []" by auto
  show ?thesis
    unfolding uploadMultipleVideos_nonempty [OF ne]
    using assms(1)
    by (simp add: video_chain_storage_failed [OF assms(2)] failed_def uploadFile_calls)
qed

theorem failed_storage_skips_processing_witness:
  "(2::nat) < length [clip_mp4, b_mp4, notes_txt]
   \<and> fst (uploadFile sample_env (randomUUID sample_sched 2)
            (Some ([clip_mp4, b_mp4, notes_txt] ! 2)) Video None)
       = Inl (FileUploadException (''Invalid video type. Allowed types: video/mp4, ''
               @ ''video/quicktime, video/x-msvideo, video/x-matroska, video/webm''))
   \<and> (\<exists>outs css. uploadMultipleVideos sample_env sample_sched
                     (Some [clip_mp4, b_mp4, notes_txt]) None = (Inr outs, css)
        \<and> outs ! 2 = \<lparr> status = Failed, data = None,
              error = Some (''Invalid video type. Allowed types: video/mp4, ''
                @ ''video/quicktime, video/x-msvideo, video/x-matroska, video/webm''),
              fileName = ''notes.txt'' \<rparr>
        \<and> filter isAssetsCreate (css ! 2) = [])"
proof -
  have i: "(2::nat) < length [clip_mp4, b_mp4, notes_txt]" by simp
  have up: "fst (uploadFile sample_env (randomUUID sample_sched 2)
                  (Some ([clip_mp4, b_mp4, notes_txt] ! 2)) Video None)
       = Inl (FileUploadException (''Invalid video type. Allowed types: video/mp4, ''
               @ ''video/quicktime, video/x-msvideo, video/x-matroska, video/webm''))"
    by (simp add: sample_upload_notes)
  show ?thesis
    using failed_storage_skips_processing [OF i up, of None] i up
    by (simp add: notes_txt_def)
qed

section \<open>Single video upload\<close>



text \<open>
  Claim C4 does not hold of \<open>uploadVideo\<close>: when the asset creation fails after the
  storage write succeeded, the outcome is \<open>failed\<close> with the message of the processing
  failure, but no delete request is issued for the stored object. The sample run:
  \<open>b.mp4\<close> is written under the key \<open>videos/u1-b.mp4\<close>, asset creation fails, and the
  requests issued are the put, the head and the asset creation only.
\<close>

theorem single_video_processing_failure_keeps_object:
  "uploadVideo sample_env ''u1'' b_mp4 None =
     (Inr \<lparr> status = Failed, data = None, error = Some ''Failed to process video with Mux'',
            fileName = ''b.mp4'' \<rparr>,
      [PutObject ''videos/u1-b.mp4'', HeadObject ''videos/u1-b.mp4'',
       AssetsCreate ''https://bucket.s3.eu-west-1.amazonaws.com/videos/u1-b.mp4''])"
proof -
  have n: "originalname b_mp4 = ''b.mp4''"
    by (simp add: b_mp4_def)
  have c: "createAsset sample_env (s3_url stored_b) t =
      (Inl (Error ''Failed to process video with Mux''), [AssetsCreate (s3_url stored_b)])" for t
    by (simp add: createAsset_def sample_create_b)
  have u: "s3_url stored_b = ''https://bucket.s3.eu-west-1.amazonaws.com/videos/u1-b.mp4''"
    by (simp add: stored_b_def)
  show ?thesis
    by (simp add: uploadVideo_def uploadVideo_try_def sample_upload_b c n failed_def) (simp add: u)
qed

section \<open>Requests the batch does not reject\<close>

lemma item_title_resolved:
  "i < length files \<Longrightarrow>
   item_title files titles i =
     Inr (case titles of
            None \<Rightarrow> originalname (files ! i)
          | Some ts \<Rightarrow> if i < length ts \<and> ts ! i \<noteq> [] then ts ! i
                       else originalname (files ! i))"
  by (simp add: item_title_def Let_def split: option.splits)

lemma video_chain_succeeds:
  assumes "i < length files"
    and "fst (uploadFile e u (Some (files ! i)) Video None) = Inr v"
    and "mux_assets_create e (s3_url v) = Inr a"
  shows "\<exists>d. fst (video_chain e u files titles i) =
            Inr \<lparr> status = Success, data = Some d, error = None,
                   fileName = originalname (files ! i) \<rparr>
          \<and> Inr (the (d_title d)) = item_title files titles i
          \<and> d_title d \<noteq> None"
proof -
  obtain cs where up: "uploadFile e u (Some (files ! i)) Video None = (Inr v, cs)"
    using assms(2) by (cases "uploadFile e u (Some (files ! i)) Video None") simp
  obtain t where t: "item_title files titles i = Inr t"
    using item_title_in_range [OF assms(1), of titles]
    by (cases "item_title files titles i") simp_all
  show ?thesis
    by (simp add: video_chain_def upload_promise_def up video_item_def t createAsset_def
          assms(3) video_data_def)
qed

lemma batch_item_title:
  assumes "i < length files"
    and "fst (uploadFile e (randomUUID sched i) (Some (files ! i)) Video None) = Inr v"
    and "mux_assets_create e (s3_url v) = Inr a"
  shows "\<exists>outs css d. uploadMultipleVideos e sched (Some files) titles = (Inr outs, css)
      \<and> status (outs ! i) = Success \<and> data (outs ! i) = Some d
      \<and> d_title d =
          Some (case titles of
                  None \<Rightarrow> originalname (files ! i)
                | Some ts \<Rightarrow> if i < length ts \<and> ts ! i \<noteq> [] then ts ! i
                             else originalname (files ! i))"
proof -
  from assms(1) have ne: "files \<noteq> []" by auto
  from video_chain_succeeds [OF assms, of titles] obtain d where
    chain: "fst (video_chain e (randomUUID sched i) files titles i) =
              Inr \<lparr> status = Success, data = Some d, error = None,
                     fileName = originalname (files ! i) \<rparr>"
    and title: "Inr (the (d_title d)) = item_title files titles i"
    and some: "d_title d \<noteq> None"
    by blast
  from title some have "d_title d =
          Some (case titles of
                  None \<Rightarrow> originalname (files ! i)
                | Some ts \<Rightarrow> if i < length ts \<and> ts ! i \<noteq> [] then ts ! i
                             else originalname (files ! i))"
    using item_title_resolved [OF assms(1), of titles] by auto
  then show ?thesis
    using assms(1) chain by (simp add: uploadMultipleVideos_nonempty [OF ne])
qed

lemma sample_uuid_2: "randomUUID sample_sched (Suc (Suc 0)) = ''u2''"
  by code_simp

lemma sample_create_clip:
  "mux_assets_create sample_env
     (''https://bucket.s3.eu-west-1.amazonaws.com/videos/'' @ u @ ''-clip.mp4'') = Inr sample_asset"
  by (simp add: sample_env_def)

lemma clip_passes_pipe: "pipe_accepts VIDEO_FILE_TYPE sample_MAX_SIZE clip_mp4"
  by (simp add: pipe_accepts_def VIDEO_FILE_TYPE_def ends_with_def sample_MAX_SIZE_def clip_mp4_def)

lemma b_passes_pipe: "pipe_accepts VIDEO_FILE_TYPE sample_MAX_SIZE b_mp4"
  by (simp add: pipe_accepts_def VIDEO_FILE_TYPE_def ends_with_def sample_MAX_SIZE_def b_mp4_def)

lemma sample_chain_clip:
  "video_chain sample_env ''u0'' (clip_mp4 # fs) titles 0 =
     (Inr \<lparr> status = Success,
            data = Some (video_data
              (projr (fst (createAsset sample_env
                 ''https://bucket.s3.eu-west-1.amazonaws.com/videos/u0-clip.mp4''
                 (projr (item_title (clip_mp4 # fs) titles 0)))))
              \<lparr> s3_url = ''https://bucket.s3.eu-west-1.amazonaws.com/videos/u0-clip.mp4'',
                s3_key = ''videos/u0-clip.mp4'', s3_contentType = ''video/mp4'',
                s3_size = 50, s3_metadata = None \<rparr>),
            error = None, fileName = ''clip.mp4'' \<rparr>,
      [PutObject ''videos/u0-clip.mp4'', HeadObject ''videos/u0-clip.mp4'',
       AssetsCreate ''https://bucket.s3.eu-west-1.amazonaws.com/videos/u0-clip.mp4''])"
proof -
  obtain t where t: "item_title (clip_mp4 # fs) titles 0 = Inr t"
    using item_title_in_range [of 0 "clip_mp4 # fs" titles]
    by (cases "item_title (clip_mp4 # fs) titles 0") simp_all
  have n: "originalname clip_mp4 = ''clip.mp4''"
    by (simp add: clip_mp4_def)
  have c: "createAsset sample_env
             ''https://bucket.s3.eu-west-1.amazonaws.com/videos/u0-clip.mp4'' t
           = (Inr (projr (fst (createAsset sample_env
                ''https://bucket.s3.eu-west-1.amazonaws.com/videos/u0-clip.mp4'' t))),
              [AssetsCreate ''https://bucket.s3.eu-west-1.amazonaws.com/videos/u0-clip.mp4''])"
    by (simp add: createAsset_def sample_env_def)
  show ?thesis
    apply (simp add: video_chain_def upload_promise_def sample_upload_clip video_item_def t n)
    apply (subst c)
    apply simp
    done
qed

lemma respond_fulfilled: "\<not> isl (fst r) \<Longrightarrow> respond r = (Inr (projr (fst r)), snd r)"
  by (cases r; cases "fst r") (simp_all add: respond_def)

text \<open>
  Claim C5 does not hold: the service has no per-request maximum and does not compare
  the length of the titles with the number of files, and neither does the endpoint in
  front of it. On the sample storage, a batch of 11 video files that pass the file pipe
  is not rejected: it returns 11 outcomes, and the requests of its first item were
  issued. A batch of 3 such files with 2 titles returns 3 outcomes.
\<close>

theorem batch_over_limit_counterexample:
  "parse_files VIDEO_FILE_TYPE sample_MAX_SIZE (Some (replicate 11 clip_mp4))
   \<and> \<not> isl (fst (uploadMultipleVideos sample_env sample_sched
                 (Some (replicate 11 clip_mp4)) None))
   \<and> length (projr (fst (uploadMultipleVideos sample_env sample_sched
                          (Some (replicate 11 clip_mp4)) None))) = 11
   \<and> hd (snd (uploadMultipleVideos sample_env sample_sched (Some (replicate 11 clip_mp4)) None))
       = [PutObject ''videos/u0-clip.mp4'', HeadObject ''videos/u0-clip.mp4'',
          AssetsCreate ''https://bucket.s3.eu-west-1.amazonaws.com/videos/u0-clip.mp4'']
   \<and> \<not> isl (fst (controller_uploadMultipleVideos sample_MAX_SIZE sample_env sample_sched
                   (Some (replicate 11 clip_mp4)) None))
   \<and> length (projr (fst (controller_uploadMultipleVideos sample_MAX_SIZE sample_env sample_sched
                          (Some (replicate 11 clip_mp4)) None))) = 11
   \<and> parse_files VIDEO_FILE_TYPE sample_MAX_SIZE (Some [clip_mp4, b_mp4, clip_mp4])
   \<and> \<not> isl (fst (uploadMultipleVideos sample_env sample_sched
                   (Some [clip_mp4, b_mp4, clip_mp4]) (Some [''A'', ''B''])))
   \<and> length (projr (fst (uploadMultipleVideos sample_env sample_sched
                          (Some [clip_mp4, b_mp4, clip_mp4]) (Some [''A'', ''B''])))) = 3
   \<and> \<not> isl (fst (controller_uploadMultipleVideos sample_MAX_SIZE sample_env sample_sched
                   (Some [clip_mp4, b_mp4, clip_mp4]) (Some [Some ''A'', Some ''B''])))
   \<and> length (projr (fst (controller_uploadMultipleVideos sample_MAX_SIZE sample_env sample_sched
                   (Some [clip_mp4, b_mp4, clip_mp4]) (Some [Some ''A'', Some ''B''])))) = 3"
proof -
  have r: "replicate 11 clip_mp4 = clip_mp4 # replicate 10 clip_mp4"
    by (simp add: numeral_eq_Suc)
  have ne: "replicate 11 clip_mp4 \<noteq> []" "[clip_mp4, b_mp4, clip_mp4] \<noteq> []"
    by simp_all
  have p11: "parse_files VIDEO_FILE_TYPE sample_MAX_SIZE (Some (replicate 11 clip_mp4))"
    by (simp add: parse_files_def list_all_iff clip_passes_pipe)
  have p3: "parse_files VIDEO_FILE_TYPE sample_MAX_SIZE (Some [clip_mp4, b_mp4, clip_mp4])"
    by (simp add: parse_files_def clip_passes_pipe b_passes_pipe)
  have "hd (snd (uploadMultipleVideos sample_env sample_sched (Some (replicate 11 clip_mp4)) None))
      = snd (video_chain sample_env ''u0'' (replicate 11 clip_mp4) None 0)"
    by (simp add: uploadMultipleVideos_nonempty [OF ne(1)] hd_map upt_rec [of 0 11] sample_uuids)
  also have "\<dots> = [PutObject ''videos/u0-clip.mp4'', HeadObject ''videos/u0-clip.mp4'',
          AssetsCreate ''https://bucket.s3.eu-west-1.amazonaws.com/videos/u0-clip.mp4'']"
    unfolding r by (simp add: sample_chain_clip)
  finally have tr: "hd (snd (uploadMultipleVideos sample_env sample_sched
                               (Some (replicate 11 clip_mp4)) None))
       = [PutObject ''videos/u0-clip.mp4'', HeadObject ''videos/u0-clip.mp4'',
          AssetsCreate ''https://bucket.s3.eu-west-1.amazonaws.com/videos/u0-clip.mp4'']" .
  have s11: "\<not> isl (fst (uploadMultipleVideos sample_env sample_sched
                 (Some (replicate 11 clip_mp4)) titles))"
      "length (projr (fst (uploadMultipleVideos sample_env sample_sched
                          (Some (replicate 11 clip_mp4)) titles))) = 11" for titles
    by (simp_all add: uploadMultipleVideos_nonempty [OF ne(1)])
  have s3: "\<not> isl (fst (uploadMultipleVideos sample_env sample_sched
                 (Some [clip_mp4, b_mp4, clip_mp4]) titles))"
      "length (projr (fst (uploadMultipleVideos sample_env sample_sched
                          (Some [clip_mp4, b_mp4, clip_mp4]) titles))) = 3" for titles
    by (simp_all add: uploadMultipleVideos_nonempty [OF ne(2)])
  have c11: "\<not> isl (fst (controller_uploadMultipleVideos sample_MAX_SIZE sample_env sample_sched
                   (Some (replicate 11 clip_mp4)) None))"
      "length (projr (fst (controller_uploadMultipleVideos sample_MAX_SIZE sample_env
                 sample_sched (Some (replicate 11 clip_mp4)) None))) = 11"
    using p11 s11 by (simp_all add: controller_uploadMultipleVideos_def respond_fulfilled)
  have c3: "\<not> isl (fst (controller_uploadMultipleVideos sample_MAX_SIZE sample_env sample_sched
                   (Some [clip_mp4, b_mp4, clip_mp4]) (Some [Some ''A'', Some ''B''])))"
      "length (projr (fst (controller_uploadMultipleVideos sample_MAX_SIZE sample_env sample_sched
                   (Some [clip_mp4, b_mp4, clip_mp4]) (Some [Some ''A'', Some ''B''])))) = 3"
    using p3 s3 by (simp_all add: controller_uploadMultipleVideos_def respond_fulfilled)
  show ?thesis
    using p11 p3 tr s11 s3 c11 c3 by blast
qed

text \<open>
  Claim C5, amended. No batch upload is rejected as a whole for the number of its files
  or of its titles: for every list of files, missing, empty or of any length, and every
  list of titles, both batch operations return one outcome per file and raise nothing.
  In a batch video upload, the title of an item whose storage upload and asset creation
  succeed is the entry of the titles at the index of the item when there is one and it
  is not empty, and the original name of its file otherwise (also when the titles are
  shorter than the files).
\<close>

theorem batch_request_never_rejected:
  "(\<exists>outs css. uploadMultipleVideos e sched files_opt titles = (Inr outs, css)
       \<and> length outs = (case files_opt of None \<Rightarrow> 0 | Some fs \<Rightarrow> length fs)
       \<and> length css = length outs)
   \<and> (\<exists>outs css. uploadMultipleImages e sched files_opt = (Inr outs, css)
       \<and> length outs = (case files_opt of None \<Rightarrow> 0 | Some fs \<Rightarrow> length fs)
       \<and> length css = length outs)
   \<and> (files_opt = Some files \<and> i < length files
        \<and> fst (uploadFile e (randomUUID sched i) (Some (files ! i)) Video None) = Inr v
        \<and> mux_assets_create e (s3_url v) = Inr a
      \<longrightarrow> (\<exists>outs css d. uploadMultipleVideos e sched files_opt titles = (Inr outs, css)
             \<and> status (outs ! i) = Success \<and> data (outs ! i) = Some d
             \<and> d_title d =
                 Some (case titles of
                         None \<Rightarrow> originalname (files ! i)
                       | Some ts \<Rightarrow> if i < length ts \<and> ts ! i \<noteq> [] then ts ! i
                                    else originalname (files ! i))))"
proof (intro conjI impI)
  show "\<exists>outs css. uploadMultipleVideos e sched files_opt titles = (Inr outs, css)
       \<and> length outs = (case files_opt of None \<Rightarrow> 0 | Some fs \<Rightarrow> length fs)
       \<and> length css = length outs"
  proof (cases files_opt)
    case None
    then show ?thesis by (simp add: uploadMultipleVideos_def)
  next
    case (Some fs)
    show ?thesis
    proof (cases "fs = []")
      case True
      with Some show ?thesis by (simp add: uploadMultipleVideos_def)
    next
      case False
      with Some show ?thesis by (simp add: uploadMultipleVideos_nonempty)
    qed
  qed
  show "\<exists>outs css. uploadMultipleImages e sched files_opt = (Inr outs, css)
       \<and> length outs = (case files_opt of None \<Rightarrow> 0 | Some fs \<Rightarrow> length fs)
       \<and> length css = length outs"
  proof (cases files_opt)
    case None
    then show ?thesis by (simp add: uploadMultipleImages_def)
  next
    case (Some fs)
    show ?thesis
    proof (cases "fs = []")
      case True
      with Some show ?thesis by (simp add: uploadMultipleImages_def)
    next
      case False
      with Some show ?thesis by (simp add: uploadMultipleImages_nonempty)
    qed
  qed
next
  assume h: "files_opt = Some files \<and> i < length files
        \<and> fst (uploadFile e (randomUUID sched i) (Some (files ! i)) Video None) = Inr v
        \<and> mux_assets_create e (s3_url v) = Inr a"
  then have f: "files_opt = Some files" by simp
  from h show "\<exists>outs css d. uploadMultipleVideos e sched files_opt titles = (Inr outs, css)
             \<and> status (outs ! i) = Success \<and> data (outs ! i) = Some d
             \<and> d_title d =
                 Some (case titles of
                         None \<Rightarrow> originalname (files ! i)
                       | Some ts \<Rightarrow> if i < length ts \<and> ts ! i \<noteq> [] then ts ! i
                                    else originalname (files ! i))"
    unfolding f using batch_item_title [of i files e sched v a titles] by blast
qed

theorem batch_request_never_rejected_witness:
  "(\<exists>outs css. uploadMultipleVideos sample_env sample_sched (Some (replicate 11 clip_mp4))
                   (Some [''A'', ''B'']) = (Inr outs, css)
       \<and> length outs = 11 \<and> length css = length outs)
   \<and> (\<exists>outs css. uploadMultipleImages sample_env sample_sched (Some (replicate 11 clip_mp4))
                     = (Inr outs, css)
       \<and> length outs = 11 \<and> length css = length outs)
   \<and> (2::nat) < length [clip_mp4, b_mp4, clip_mp4]
   \<and> fst (uploadFile sample_env (randomUUID sample_sched 2)
            (Some ([clip_mp4, b_mp4, clip_mp4] ! 2)) Video None)
       = Inr \<lparr> s3_url = ''https://bucket.s3.eu-west-1.amazonaws.com/videos/u2-clip.mp4'',
               s3_key = ''videos/u2-clip.mp4'', s3_contentType = ''video/mp4'',
               s3_size = 50, s3_metadata = None \<rparr>
   \<and> mux_assets_create sample_env
         ''https://bucket.s3.eu-west-1.amazonaws.com/videos/u2-clip.mp4'' = Inr sample_asset
   \<and> (\<exists>outs css d. uploadMultipleVideos sample_env sample_sched
                       (Some [clip_mp4, b_mp4, clip_mp4]) (Some [''A'', ''B'']) = (Inr outs, css)
        \<and> status (outs ! 2) = Success \<and> data (outs ! 2) = Some d
        \<and> d_title d = Some ''clip.mp4'')"
proof -
  let ?v = "\<lparr> s3_url = ''https://bucket.s3.eu-west-1.amazonaws.com/videos/u2-clip.mp4'',
               s3_key = ''videos/u2-clip.mp4'', s3_contentType = ''video/mp4'',
               s3_size = 50, s3_metadata = None \<rparr>"
  let ?fs = "[clip_mp4, b_mp4, clip_mp4]"
  have i: "(2::nat) < length ?fs" by simp
  have up: "fst (uploadFile sample_env (randomUUID sample_sched 2) (Some (?fs ! 2)) Video None)
      = Inr ?v"
    using sample_upload_clip [of "''u2''"] by (simp add: sample_uuids)
  have mux: "mux_assets_create sample_env
         ''https://bucket.s3.eu-west-1.amazonaws.com/videos/u2-clip.mp4'' = Inr sample_asset"
    using sample_create_clip [of "''u2''"] by simp
  then have mux': "mux_assets_create sample_env (s3_url ?v) = Inr sample_asset"
    by simp
  note count = batch_request_never_rejected
          [where e = sample_env and sched = sample_sched
             and files_opt = "Some (replicate 11 clip_mp4)" and titles = "Some [''A'', ''B'']"]
  from count have 1: "\<exists>outs css. uploadMultipleVideos sample_env sample_sched
                   (Some (replicate 11 clip_mp4)) (Some [''A'', ''B'']) = (Inr outs, css)
       \<and> length outs = 11 \<and> length css = length outs"
    by simp
  from count have 2: "\<exists>outs css. uploadMultipleImages sample_env sample_sched
                     (Some (replicate 11 clip_mp4)) = (Inr outs, css)
       \<and> length outs = 11 \<and> length css = length outs"
    by simp
  note inst = batch_request_never_rejected
          [where e = sample_env and sched = sample_sched and files_opt = "Some ?fs"
             and files = ?fs and titles = "Some [''A'', ''B'']" and i = 2 and v = ?v
             and a = sample_asset]
  from inst have "Some ?fs = Some ?fs \<and> 2 < length ?fs
        \<and> fst (uploadFile sample_env (randomUUID sample_sched 2) (Some (?fs ! 2)) Video None)
            = Inr ?v
        \<and> mux_assets_create sample_env (s3_url ?v) = Inr sample_asset
      \<longrightarrow> (\<exists>outs css d. uploadMultipleVideos sample_env sample_sched (Some ?fs)
                           (Some [''A'', ''B'']) = (Inr outs, css)
             \<and> status (outs ! 2) = Success \<and> data (outs ! 2) = Some d
             \<and> d_title d =
                 Some (case Some [''A'', ''B''] of
                         None \<Rightarrow> originalname (?fs ! 2)
                       | Some ts \<Rightarrow> if 2 < length ts \<and> ts ! 2 \<noteq> [] then ts ! 2
                                    else originalname (?fs ! 2)))"
    by (elim conjE)
  with i up mux' obtain outs css d where
    run: "uploadMultipleVideos sample_env sample_sched (Some ?fs) (Some [''A'', ''B''])
            = (Inr outs, css)"
      "status (outs ! 2) = Success" "data (outs ! 2) = Some d"
    and title: "d_title d =
                 Some (case Some [''A'', ''B''] of
                         None \<Rightarrow> originalname (?fs ! 2)
                       | Some ts \<Rightarrow> if 2 < length ts \<and> ts ! 2 \<noteq> [] then ts ! 2
                                    else originalname (?fs ! 2))"
    by blast
  from title have "d_title d = Some ''clip.mp4''"
    by (simp add: clip_mp4_def)
  with run have 3: "\<exists>outs css d. uploadMultipleVideos sample_env sample_sched
                       (Some ?fs) (Some [''A'', ''B'']) = (Inr outs, css)
        \<and> status (outs ! 2) = Success \<and> data (outs ! 2) = Some d
        \<and> d_title d = Some ''clip.mp4''"
    by blast
  show ?thesis
    using 1 2 i up mux 3 by blast
qed

section \<open>Single uploads return their failures\<close>

lemma uploadVideo_try_storage_failed:
  "fst (uploadFile e u (Some f) Video None) = Inl err \<Longrightarrow>
   fst (uploadVideo_try e u f title) = Inl err"
  by (cases "uploadFile e u (Some f) Video None") (simp add: uploadVideo_try_def)

lemma uploadVideo_try_processing_failed:
  "fst (uploadFile e u (Some f) Video None) = Inr v \<Longrightarrow> mux_assets_create e (s3_url v) = Inl m \<Longrightarrow>
   fst (uploadVideo_try e u f title) = Inl (Error ''Failed to process video with Mux'')"
  by (cases "uploadFile e u (Some f) Video None") (simp add: uploadVideo_try_def createAsset_def)

lemma uploadVideo_caught:
  "fst (uploadVideo_try e u f title) = Inl err \<Longrightarrow>
   fst (uploadVideo e u f title) = Inr (failed (Some (message err)) (originalname f))"
  by (cases "uploadVideo_try e u f title") (simp add: uploadVideo_def)

lemma uploadVideo_returns: "\<exists>r cs. uploadVideo e u f title = (Inr r, cs)"
  by (simp add: uploadVideo_def split: prod.splits sum.splits)

lemma uploadImage_returns: "\<exists>r cs. uploadImage e u f = (Inr r, cs)"
  by (simp add: uploadImage_def split: prod.splits sum.splits)

lemma down_upload_clip:
  "uploadFile down_env ''u0'' (Some clip_mp4) Video None =
     (Inl (FileUploadException ''Failed to upload file to S3: SlowDown''),
      [PutObject ''videos/u0-clip.mp4''])"
  by (simp add: uploadFile_def validateFile_def allowedTypes_def ALLOWED_VIDEO_TYPES_def
        maxSize_def default_folder_def Let_def down_env_def sample_env_def clip_mp4_def)

lemma down_upload_small_png:
  "uploadFile down_env ''u0'' (Some small_png) Image None =
     (Inl (FileUploadException ''Failed to upload file to S3: SlowDown''),
      [PutObject ''images/u0-small.png''])"
  by (simp add: uploadFile_def validateFile_def allowedTypes_def ALLOWED_IMAGE_TYPES_def
        maxSize_def default_folder_def Let_def down_env_def sample_env_def small_png_def)

lemma small_png_passes_pipe: "pipe_accepts IMAGE_FILE_TYPE (5 * 1024 * 1024) small_png"
  by (simp add: pipe_accepts_def IMAGE_FILE_TYPE_def ends_with_def small_png_def)

lemma sample_uploadVideo_b:
  "uploadVideo sample_env ''u1'' b_mp4 None =
     (Inr \<lparr> status = Failed, data = None, error = Some ''Failed to process video with Mux'',
            fileName = ''b.mp4'' \<rparr>,
      [PutObject ''videos/u1-b.mp4'', HeadObject ''videos/u1-b.mp4'',
       AssetsCreate ''https://bucket.s3.eu-west-1.amazonaws.com/videos/u1-b.mp4''])"
proof -
  have n: "originalname b_mp4 = ''b.mp4''"
    by (simp add: b_mp4_def)
  have c: "createAsset sample_env (s3_url stored_b) t =
      (Inl (Error ''Failed to process video with Mux''), [AssetsCreate (s3_url stored_b)])" for t
    by (simp add: createAsset_def sample_create_b)
  have u: "s3_url stored_b = ''https://bucket.s3.eu-west-1.amazonaws.com/videos/u1-b.mp4''"
    by (simp add: stored_b_def)
  show ?thesis
    by (simp add: uploadVideo_def uploadVideo_try_def sample_upload_b c n failed_def) (simp add: u)
qed

lemma down_uploadImage_small_png:
  "uploadImage down_env ''u0'' small_png =
     (Inr \<lparr> status = Failed, data = None,
            error = Some ''Failed to upload file to S3: SlowDown'', fileName = ''small.png'' \<rparr>,
      [PutObject ''images/u0-small.png''])"
proof -
  have n: "originalname small_png = ''small.png''"
    by (simp add: small_png_def)
  show ?thesis
    by (simp add: uploadImage_def down_upload_small_png failed_def n)
qed

text \<open>
  Claim C7 does not hold: a single upload that fails inside the service does not raise.
  Both sample files pass the file pipe of their endpoint. The video upload of \<open>b.mp4\<close>,
  whose asset creation fails, and the image upload of \<open>small.png\<close> to a storage that
  refuses the write, both answer normally with a \<open>failed\<close> outcome that carries the message
  of the error as it is, without a wrapper.
\<close>

theorem single_upload_returns_counterexample:
  "pipe_accepts VIDEO_FILE_TYPE sample_MAX_SIZE b_mp4
   \<and> controller_uploadVideo sample_MAX_SIZE sample_env ''u1'' (Some b_mp4) None =
     (Inr \<lparr> status = Failed, data = None, error = Some ''Failed to process video with Mux'',
            fileName = ''b.mp4'' \<rparr>,
      [PutObject ''videos/u1-b.mp4'', HeadObject ''videos/u1-b.mp4'',
       AssetsCreate ''https://bucket.s3.eu-west-1.amazonaws.com/videos/u1-b.mp4''])
   \<and> pipe_accepts IMAGE_FILE_TYPE (5 * 1024 * 1024) small_png
   \<and> controller_uploadImage down_env ''u0'' (Some small_png) =
     (Inr \<lparr> status = Failed, data = None,
            error = Some ''Failed to upload file to S3: SlowDown'', fileName = ''small.png'' \<rparr>,
      [PutObject ''images/u0-small.png''])"
  using b_passes_pipe small_png_passes_pipe
  by (simp add: controller_uploadVideo_def controller_uploadImage_def respond_def
        sample_uploadVideo_b down_uploadImage_small_png)

text \<open>
  Claim C7, amended. The single-item flows never raise: \<open>uploadVideo\<close> and \<open>uploadImage\<close>
  always return an outcome. Whatever the storage upload throws, and the failure of the
  asset creation after a successful storage upload, is caught and returned as a \<open>failed\<close>
  outcome that carries the message of the caught error unchanged and the original name
  of the file. For a file that passes the file pipe, the endpoint answers with that
  outcome.
\<close>

theorem single_upload_never_raises:
  "(\<exists>r cs. uploadVideo e u f title = (Inr r, cs))
   \<and> (\<exists>r cs. uploadImage e u f = (Inr r, cs))
   \<and> (fst (uploadFile e u (Some f) Video None) = Inl err \<longrightarrow>
        fst (uploadVideo e u f title) =
          Inr \<lparr> status = Failed, data = None, error = Some (message err),
                 fileName = originalname f \<rparr>)
   \<and> (fst (uploadFile e u (Some f) Video None) = Inr v \<and> mux_assets_create e (s3_url v) = Inl m
        \<longrightarrow> fst (uploadVideo e u f title) =
          Inr \<lparr> status = Failed, data = None, error = Some ''Failed to process video with Mux'',
                 fileName = originalname f \<rparr>)
   \<and> (fst (uploadFile e u (Some f) Image None) = Inl err' \<longrightarrow>
        fst (uploadImage e u f) =
          Inr \<lparr> status = Failed, data = None, error = Some (message err'),
                 fileName = originalname f \<rparr>)
   \<and> (pipe_accepts VIDEO_FILE_TYPE MAX_SIZE f \<longrightarrow>
        (\<exists>r cs. controller_uploadVideo MAX_SIZE e u (Some f) title = (Inr r, cs)
                \<and> uploadVideo e u f title = (Inr r, cs)))
   \<and> (pipe_accepts IMAGE_FILE_TYPE (5 * 1024 * 1024) f \<longrightarrow>
        (\<exists>r cs. controller_uploadImage e u (Some f) = (Inr r, cs)
                \<and> uploadImage e u f = (Inr r, cs)))"
proof (intro conjI impI)
  show "\<exists>r cs. uploadVideo e u f title = (Inr r, cs)"
    by (rule uploadVideo_returns)
  show "\<exists>r cs. uploadImage e u f = (Inr r, cs)"
    by (rule uploadImage_returns)
next
  assume "fst (uploadFile e u (Some f) Video None) = Inl err"
  then show "fst (uploadVideo e u f title) =
      Inr \<lparr> status = Failed, data = None, error = Some (message err),
             fileName = originalname f \<rparr>"
    using uploadVideo_caught [OF uploadVideo_try_storage_failed] by (simp add: failed_def)
next
  assume "fst (uploadFile e u (Some f) Video None) = Inr v \<and> mux_assets_create e (s3_url v) = Inl m"
  then have "fst (uploadVideo_try e u f title) = Inl (Error ''Failed to process video with Mux'')"
    using uploadVideo_try_processing_failed by blast
  from uploadVideo_caught [OF this]
  show "fst (uploadVideo e u f title) =
      Inr \<lparr> status = Failed, data = None, error = Some ''Failed to process video with Mux'',
             fileName = originalname f \<rparr>"
    by (simp add: failed_def)
next
  assume "fst (uploadFile e u (Some f) Image None) = Inl err'"
  then show "fst (uploadImage e u f) =
      Inr \<lparr> status = Failed, data = None, error = Some (message err'),
             fileName = originalname f \<rparr>"
    by (cases "uploadFile e u (Some f) Image None") (simp add: uploadImage_def failed_def)
next
  assume p: "pipe_accepts VIDEO_FILE_TYPE MAX_SIZE f"
  obtain r cs where "uploadVideo e u f title = (Inr r, cs)"
    using uploadVideo_returns by blast
  with p show "\<exists>r cs. controller_uploadVideo MAX_SIZE e u (Some f) title = (Inr r, cs)
                \<and> uploadVideo e u f title = (Inr r, cs)"
    by (simp add: controller_uploadVideo_def respond_def)
next
  assume p: "pipe_accepts IMAGE_FILE_TYPE (5 * 1024 * 1024) f"
  obtain r cs where "uploadImage e u f = (Inr r, cs)"
    using uploadImage_returns by blast
  with p show "\<exists>r cs. controller_uploadImage e u (Some f) = (Inr r, cs)
                \<and> uploadImage e u f = (Inr r, cs)"
    by (simp add: controller_uploadImage_def respond_def)
qed

theorem single_upload_never_raises_witness:
  "fst (uploadFile down_env ''u0'' (Some clip_mp4) Video None)
     = Inl (FileUploadException ''Failed to upload file to S3: SlowDown'')
   \<and> fst (uploadVideo down_env ''u0'' clip_mp4 None)
     = Inr \<lparr> status = Failed, data = None,
              error = Some ''Failed to upload file to S3: SlowDown'', fileName = ''clip.mp4'' \<rparr>
   \<and> fst (uploadFile sample_env ''u1'' (Some b_mp4) Video None) = Inr stored_b
   \<and> mux_assets_create sample_env (s3_url stored_b) = Inl ''boom''
   \<and> fst (uploadVideo sample_env ''u1'' b_mp4 None)
     = Inr \<lparr> status = Failed, data = None, error = Some ''Failed to process video with Mux'',
              fileName = ''b.mp4'' \<rparr>
   \<and> fst (uploadFile down_env ''u0'' (Some small_png) Image None)
     = Inl (FileUploadException ''Failed to upload file to S3: SlowDown'')
   \<and> fst (uploadImage down_env ''u0'' small_png)
     = Inr \<lparr> status = Failed, data = None,
              error = Some ''Failed to upload file to S3: SlowDown'', fileName = ''small.png'' \<rparr>
   \<and> pipe_accepts VIDEO_FILE_TYPE sample_MAX_SIZE b_mp4
   \<and> (\<exists>r cs. controller_uploadVideo sample_MAX_SIZE sample_env ''u1'' (Some b_mp4) None
                 = (Inr r, cs))
   \<and> pipe_accepts IMAGE_FILE_TYPE (5 * 1024 * 1024) small_png
   \<and> (\<exists>r cs. controller_uploadImage down_env ''u0'' (Some small_png) = (Inr r, cs))"
proof -
  have up: "fst (uploadFile down_env ''u0'' (Some clip_mp4) Video None)
     = Inl (FileUploadException ''Failed to upload file to S3: SlowDown'')"
    by (simp add: down_upload_clip)
  have upb: "fst (uploadFile sample_env ''u1'' (Some b_mp4) Video None) = Inr stored_b"
    by (simp add: sample_upload_b)
  have upi: "fst (uploadFile down_env ''u0'' (Some small_png) Image None)
     = Inl (FileUploadException ''Failed to upload file to S3: SlowDown'')"
    by (simp add: down_upload_small_png)
  have n: "originalname clip_mp4 = ''clip.mp4''" "originalname b_mp4 = ''b.mp4''"
      "originalname small_png = ''small.png''"
    by (simp_all add: clip_mp4_def b_mp4_def small_png_def)
  note i1 = single_upload_never_raises
         [where e = down_env and u = "''u0''" and f = clip_mp4 and title = None
            and err = "FileUploadException ''Failed to upload file to S3: SlowDown''"
            and v = stored_b and m = "''boom''" and MAX_SIZE = sample_MAX_SIZE
            and err' = "FileUploadException ''Failed to upload file to S3: SlowDown''"]
  from i1 have "fst (uploadFile down_env ''u0'' (Some clip_mp4) Video None)
       = Inl (FileUploadException ''Failed to upload file to S3: SlowDown'') \<longrightarrow>
     fst (uploadVideo down_env ''u0'' clip_mp4 None)
       = Inr \<lparr> status = Failed, data = None,
                error = Some (message (FileUploadException
                                 ''Failed to upload file to S3: SlowDown'')),
                fileName = originalname clip_mp4 \<rparr>"
    by (elim conjE)
  with up have 1: "fst (uploadVideo down_env ''u0'' clip_mp4 None)
     = Inr \<lparr> status = Failed, data = None,
              error = Some ''Failed to upload file to S3: SlowDown'', fileName = ''clip.mp4'' \<rparr>"
    by (simp add: n)
  note i2 = single_upload_never_raises
         [where e = sample_env and u = "''u1''" and f = b_mp4 and title = None
            and v = stored_b and m = "''boom''" and MAX_SIZE = sample_MAX_SIZE
            and err = "FileUploadException ''Failed to upload file to S3: SlowDown''"
            and err' = "FileUploadException ''Failed to upload file to S3: SlowDown''"]
  from i2 have "fst (uploadFile sample_env ''u1'' (Some b_mp4) Video None) = Inr stored_b
       \<and> mux_assets_create sample_env (s3_url stored_b) = Inl ''boom'' \<longrightarrow>
     fst (uploadVideo sample_env ''u1'' b_mp4 None)
       = Inr \<lparr> status = Failed, data = None,
                error = Some ''Failed to process video with Mux'',
                fileName = originalname b_mp4 \<rparr>"
    by (elim conjE)
  with upb sample_create_b have 2: "fst (uploadVideo sample_env ''u1'' b_mp4 None)
     = Inr \<lparr> status = Failed, data = None, error = Some ''Failed to process video with Mux'',
              fileName = ''b.mp4'' \<rparr>"
    by (simp add: n)
  from i2 have "pipe_accepts VIDEO_FILE_TYPE sample_MAX_SIZE b_mp4 \<longrightarrow>
        (\<exists>r cs. controller_uploadVideo sample_MAX_SIZE sample_env ''u1'' (Some b_mp4) None
                   = (Inr r, cs)
                \<and> uploadVideo sample_env ''u1'' b_mp4 None = (Inr r, cs))"
    by (elim conjE)
  with b_passes_pipe have 4:
    "\<exists>r cs. controller_uploadVideo sample_MAX_SIZE sample_env ''u1'' (Some b_mp4) None
               = (Inr r, cs)"
    by blast
  note i3 = single_upload_never_raises
         [where e = down_env and u = "''u0''" and f = small_png and title = None
            and v = stored_b and m = "''boom''" and MAX_SIZE = sample_MAX_SIZE
            and err = "FileUploadException ''Failed to upload file to S3: SlowDown''"
            and err' = "FileUploadException ''Failed to upload file to S3: SlowDown''"]
  from i3 have "fst (uploadFile down_env ''u0'' (Some small_png) Image None)
       = Inl (FileUploadException ''Failed to upload file to S3: SlowDown'') \<longrightarrow>
     fst (uploadImage down_env ''u0'' small_png)
       = Inr \<lparr> status = Failed, data = None,
                error = Some (message (FileUploadException
                                 ''Failed to upload file to S3: SlowDown'')),
                fileName = originalname small_png \<rparr>"
    by (elim conjE)
  with upi have 3: "fst (uploadImage down_env ''u0'' small_png)
     = Inr \<lparr> status = Failed, data = None,
              error = Some ''Failed to upload file to S3: SlowDown'', fileName = ''small.png'' \<rparr>"
    by (simp add: n)
  from i3 have "pipe_accepts IMAGE_FILE_TYPE (5 * 1024 * 1024) small_png \<longrightarrow>
        (\<exists>r cs. controller_uploadImage down_env ''u0'' (Some small_png) = (Inr r, cs)
                \<and> uploadImage down_env ''u0'' small_png = (Inr r, cs))"
    by (elim conjE)
  with small_png_passes_pipe have 5:
    "\<exists>r cs. controller_uploadImage down_env ''u0'' (Some small_png) = (Inr r, cs)"
    by blast
  show ?thesis
    using up upb upi sample_create_b 1 2 3 4 5 b_passes_pipe small_png_passes_pipe by blast
qed

section \<open>Title sanitization\<close>

lemma drop_trailing_split:
  "xs = rev (dropWhile P (rev xs)) @ rev (takeWhile P (rev xs))"
  using arg_cong [OF takeWhile_dropWhile_id [of P "rev xs"], of rev]
  by (simp only: rev_append rev_rev_ident)

lemma trim_split:
  "dropWhile isWhiteSpace t =
     trim t @ rev (takeWhile isWhiteSpace (rev (dropWhile isWhiteSpace t)))"
  unfolding trim_def by (rule drop_trailing_split)

lemma trim_decompose:
  "\<exists>a b. t = a @ trim t @ b \<and> list_all isWhiteSpace a \<and> list_all isWhiteSpace b"
proof -
  let ?a = "takeWhile isWhiteSpace t"
  let ?b = "rev (takeWhile isWhiteSpace (rev (dropWhile isWhiteSpace t)))"
  have "t = ?a @ dropWhile isWhiteSpace t"
    by simp
  then have "t = ?a @ trim t @ ?b"
    using trim_split [of t] by simp
  moreover have "list_all isWhiteSpace ?a"
    by (auto simp: list_all_iff dest: set_takeWhileD)
  moreover have "list_all isWhiteSpace ?b"
    by (auto simp: list_all_iff dest: set_takeWhileD)
  ultimately show ?thesis by blast
qed

lemma trim_ends:
  assumes "trim t \<noteq> []"
  shows "\<not> isWhiteSpace (hd (trim t)) \<and> \<not> isWhiteSpace (last (trim t))"
proof -
  let ?d = "dropWhile isWhiteSpace t"
  let ?r = "dropWhile isWhiteSpace (rev ?d)"
  from assms have r: "?r \<noteq> []" by (simp add: trim_def)
  then have "\<not> isWhiteSpace (hd ?r)" by (rule hd_dropWhile)
  then have l: "\<not> isWhiteSpace (last (trim t))"
    using r by (simp add: trim_def last_rev)
  from r have d: "?d \<noteq> []" by (cases "?d = []") simp_all
  then have "\<not> isWhiteSpace (hd ?d)" by (rule hd_dropWhile)
  moreover have "hd ?d = hd (trim t)"
    using assms trim_split [of t] by (metis hd_append2)
  ultimately show ?thesis using l by simp
qed

lemma sanitize_sample: "sanitizeTitle (Some ''  My Video!! '') = ''My Video''"
  by code_simp

lemma title_char_set:
  "\<forall>c. title_char c =
     (c \<in> set ''abcdefghijklmnopqrstuvwxyzABCDEFGHIJKLMNOPQRSTUVWXYZ0123456789-_. '')"
  by code_simp

lemma sanitizeTitle_Some: "sanitizeTitle (Some t) = filter title_char (trim t)"
  by (simp add: sanitizeTitle_def)

text \<open>
  What the batch video endpoint does with the titles, for files that pass the file pipe.
  Each title is trimmed (white space, and nothing else, is removed from both ends), then
  every character outside the ASCII letters, the digits, hyphen, underscore, period and
  space is removed; a missing title sanitizes to the empty string. The title of a
  successfully processed item is its sanitized title when that is not empty, and the
  original name of its file when the titles are absent, shorter than the files, or
  empty after sanitization at its index.
\<close>

lemma batch_titles_are_sanitized:
  "sanitizeTitle None = []
   \<and> sanitizeTitle (Some t) = filter title_char (trim t)
   \<and> (\<exists>a b. t = a @ trim t @ b \<and> list_all isWhiteSpace a \<and> list_all isWhiteSpace b)
   \<and> (trim t \<noteq> [] \<longrightarrow> \<not> isWhiteSpace (hd (trim t)) \<and> \<not> isWhiteSpace (last (trim t)))
   \<and> title_char c =
       (c \<in> set ''abcdefghijklmnopqrstuvwxyzABCDEFGHIJKLMNOPQRSTUVWXYZ0123456789-_. '')
   \<and> sanitizeTitle (Some ''  My Video!! '') = ''My Video''
   \<and> (parse_files VIDEO_FILE_TYPE MAX_SIZE (Some files) \<and> i < length files
        \<and> fst (uploadFile e (randomUUID sched i) (Some (files ! i)) Video None) = Inr v
        \<and> mux_assets_create e (s3_url v) = Inr a
      \<longrightarrow> (\<exists>outs css d.
             controller_uploadMultipleVideos MAX_SIZE e sched (Some files) rawTitles
               = (Inr outs, css)
             \<and> status (outs ! i) = Success \<and> data (outs ! i) = Some d
             \<and> d_title d =
                 Some (case rawTitles of
                         None \<Rightarrow> originalname (files ! i)
                       | Some ts \<Rightarrow>
                           if i < length ts \<and> sanitizeTitle (ts ! i) \<noteq> []
                           then sanitizeTitle (ts ! i) else originalname (files ! i))))"
proof (intro conjI impI)
  show "sanitizeTitle None = []"
    by (simp add: sanitizeTitle_def)
  show "sanitizeTitle (Some t) = filter title_char (trim t)"
    by (rule sanitizeTitle_Some)
  show "\<exists>a b. t = a @ trim t @ b \<and> list_all isWhiteSpace a \<and> list_all isWhiteSpace b"
    by (rule trim_decompose)
  show "title_char c =
       (c \<in> set ''abcdefghijklmnopqrstuvwxyzABCDEFGHIJKLMNOPQRSTUVWXYZ0123456789-_. '')"
    using title_char_set by blast
  show "sanitizeTitle (Some ''  My Video!! '') = ''My Video''"
    by (rule sanitize_sample)
next
  assume "trim t \<noteq> []"
  then show "\<not> isWhiteSpace (hd (trim t))" "\<not> isWhiteSpace (last (trim t))"
    using trim_ends by blast+
next
  assume h: "parse_files VIDEO_FILE_TYPE MAX_SIZE (Some files) \<and> i < length files
        \<and> fst (uploadFile e (randomUUID sched i) (Some (files ! i)) Video None) = Inr v
        \<and> mux_assets_create e (s3_url v) = Inr a"
  then have pipe: "parse_files VIDEO_FILE_TYPE MAX_SIZE (Some files)" and i: "i < length files"
    by auto
  let ?resolved = "case rawTitles of
                     None \<Rightarrow> originalname (files ! i)
                   | Some ts \<Rightarrow>
                       if i < length ts \<and> sanitizeTitle (ts ! i) \<noteq> []
                       then sanitizeTitle (ts ! i) else originalname (files ! i)"
  from h batch_item_title [of i files e sched v a "sanitizeTitles rawTitles"]
  obtain outs css d where
    run: "uploadMultipleVideos e sched (Some files) (sanitizeTitles rawTitles) = (Inr outs, css)"
      "status (outs ! i) = Success" "data (outs ! i) = Some d"
    and title: "d_title d =
          Some (case sanitizeTitles rawTitles of
                  None \<Rightarrow> originalname (files ! i)
                | Some ts \<Rightarrow> if i < length ts \<and> ts ! i \<noteq> [] then ts ! i
                             else originalname (files ! i))"
    by blast
  from title have "d_title d = Some ?resolved"
    by (auto simp: sanitizeTitles_def split: option.splits)
  with run pipe show "\<exists>outs css d.
             controller_uploadMultipleVideos MAX_SIZE e sched (Some files) rawTitles
               = (Inr outs, css)
             \<and> status (outs ! i) = Success \<and> data (outs ! i) = Some d
             \<and> d_title d = Some ?resolved"
    by (simp add: controller_uploadMultipleVideos_def respond_def)
qed

text \<open>
  Claim C6 says that every title a caller supplies is sanitized before orchestration,
  so that \<open>"  My Video!! "\<close> resolves to \<open>"My Video"\<close>. The single video endpoint does
  not do it: it hands the title of the request to the service as it came. The sample
  request, a 50-byte \<open>video/mp4\<close> file \<open>clip.mp4\<close> that passes the file pipe, with the title
  \<open>"  My Video!! "\<close>, is answered with a \<open>success\<close> outcome whose title is \<open>"  My Video!! "\<close>,
  untrimmed and with its exclamation marks, where sanitization gives \<open>"My Video"\<close>.
\<close>

theorem single_video_title_not_sanitized:
  "pipe_accepts VIDEO_FILE_TYPE sample_MAX_SIZE clip_mp4
   \<and> controller_uploadVideo sample_MAX_SIZE sample_env ''u0'' (Some clip_mp4)
       (Some ''  My Video!! '') =
     (Inr \<lparr> status = Success,
            data = Some
              \<lparr> d_id = Some ''a1'', d_title = Some ''  My Video!! '',
                d_url = ''https://bucket.s3.eu-west-1.amazonaws.com/videos/u0-clip.mp4'',
                d_status = Some ''preparing'', d_duration = None, d_aspectRatio = None,
                d_playbackId = Some ''p1'', d_createdAt = Some (Date ''1700000000''),
                d_uploadId = None,
                d_s3Url = Some ''https://bucket.s3.eu-west-1.amazonaws.com/videos/u0-clip.mp4'',
                d_contentType = ''video/mp4'', d_size = 50, d_metadata = None \<rparr>,
            error = None, fileName = ''clip.mp4'' \<rparr>,
      [PutObject ''videos/u0-clip.mp4'', HeadObject ''videos/u0-clip.mp4'',
       AssetsCreate ''https://bucket.s3.eu-west-1.amazonaws.com/videos/u0-clip.mp4''])
   \<and> sanitizeTitle (Some ''  My Video!! '') = ''My Video''"
proof -
  have c: "createAsset sample_env
             ''https://bucket.s3.eu-west-1.amazonaws.com/videos/u0-clip.mp4'' t
           = (Inr \<lparr> vm_id = ''a1'', vm_title = t, vm_status = ''preparing'',
                    vm_duration = None, vm_aspectRatio = None, vm_playbackId = Some ''p1'',
                    vm_createdAt = Date ''1700000000'', vm_uploadId = None,
                    vm_s3Url = ''https://bucket.s3.eu-west-1.amazonaws.com/videos/u0-clip.mp4'' \<rparr>,
              [AssetsCreate ''https://bucket.s3.eu-west-1.amazonaws.com/videos/u0-clip.mp4''])"
    for t
    by (simp add: createAsset_def sample_env_def sample_asset_def)
  have n: "originalname clip_mp4 = ''clip.mp4''"
    by (simp add: clip_mp4_def)
  have "uploadVideo sample_env ''u0'' clip_mp4 (Some ''  My Video!! '') =
     (Inr \<lparr> status = Success,
            data = Some
              \<lparr> d_id = Some ''a1'', d_title = Some ''  My Video!! '',
                d_url = ''https://bucket.s3.eu-west-1.amazonaws.com/videos/u0-clip.mp4'',
                d_status = Some ''preparing'', d_duration = None, d_aspectRatio = None,
                d_playbackId = Some ''p1'', d_createdAt = Some (Date ''1700000000''),
                d_uploadId = None,
                d_s3Url = Some ''https://bucket.s3.eu-west-1.amazonaws.com/videos/u0-clip.mp4'',
                d_contentType = ''video/mp4'', d_size = 50, d_metadata = None \<rparr>,
            error = None, fileName = ''clip.mp4'' \<rparr>,
      [PutObject ''videos/u0-clip.mp4'', HeadObject ''videos/u0-clip.mp4'',
       AssetsCreate ''https://bucket.s3.eu-west-1.amazonaws.com/videos/u0-clip.mp4''])"
    using sample_upload_clip [of "''u0''"]
    by (simp add: uploadVideo_def uploadVideo_try_def c video_data_def n)
  then show ?thesis
    using clip_passes_pipe
    by (simp add: controller_uploadVideo_def respond_def sanitize_sample)
qed

end
